theory Spec2Isabelle
  imports Complex_Main "HOL-Library.Multiset" "HOL-Library.Product_Lexorder"
begin

section \<open>Data model of the map drawer (map\_machine/mapper.py)\<close>

text \<open>
  Python floats are read as rationals: every finite float is one, and the comparisons
  the drawer makes on them are exact. NaN and the infinities are left out, and no
  rounding of float arithmetic is modelled.
\<close>

type_synonym pyfloat = rat
type_synonym vector = "pyfloat \<times> pyfloat"
type_synonym color = string

text \<open>
  The enumerations \<open>BuildingMode\<close> (ui/cli.py) and \<open>LabelMode\<close>
  (map\_configuration.py) are declared outside the given sources. The drawer names the
  members \<open>NO\<close> and \<open>FLAT\<close> only; every other member is kept by its name.
\<close>

datatype building_mode = BuildingMode_NO | BuildingMode_FLAT | BuildingMode_other string

datatype label_mode = LabelMode_NO | LabelMode_other string

text \<open>
  \<open>MapConfiguration\<close>: the attributes and the results of the two methods
  (\<open>background_color()\<close>, \<open>is_wireframe()\<close>) that the drawer reads.
\<close>

record map_configuration =
  overlap :: int
  building_mode :: building_mode
  draw_roofs :: bool
  label_mode :: label_mode
  is_wireframe :: bool
  credit :: "string option"
  configured_background_color :: "color option"

text \<open>
  \<open>Flinger\<close>: the canvas size, \<open>get_scale()\<close> without an argument,
  \<open>fling(coordinates)\<close> and \<open>get_scale(coordinates)\<close>.
\<close>

record flinger =
  flinger_size :: vector
  get_scale :: pyfloat
  fling :: "vector \<Rightarrow> vector"
  get_scale_at :: "vector \<Rightarrow> pyfloat"

record scheme =
  get_color :: "string \<Rightarrow> color"

record line_style =
  priority :: pyfloat
  style :: "(string \<times> string) list"

text \<open>
  \<open>StyledFigure\<close>: its line style and the string that \<open>get_path\<close> returns
  for the flinger of the render.
\<close>

record styled_figure =
  line_style :: line_style
  get_path :: string

text \<open>
  \<open>Building\<close> with the wall segments it is made of. The type \<open>'seg\<close> is the
  class \<open>Segment\<close> (geometry/vector.py, outside the given sources) as a dictionary
  key: equality on \<open>'seg\<close> is the equality Python's \<open>dict\<close> uses for it.
\<close>

record 'seg building =
  building_id :: nat
  height :: pyfloat
  min_height :: pyfloat
  parts :: "'seg list"

record osm_node =
  node_id :: nat
  coordinates :: vector

record road =
  nodes :: "osm_node list"
  lanes :: pyfloat

text \<open>
  \<open>RoadPart(point_1, point_2, lanes, scale)\<close>, a directed half of a road segment.
  The class belongs to feature/road.py, outside the given sources. As for any Python
  class that does not define its own equality, two parts are the same member of a
  \<open>set\<close> only when they are the same object; \<open>made_at\<close> tells the objects apart by
  the call that made them: the number of the road in the iteration, the index of the
  segment, and whether it is the second of the two calls.
\<close>

record road_part =
  point_1 :: vector
  point_2 :: vector
  part_lanes :: pyfloat
  part_scale :: pyfloat
  made_at :: "nat \<times> nat \<times> bool"

text \<open>
  \<open>Point\<close>: its priority, and what the occupancy model below needs: the cells that
  the main icon, each extra icon and the label would claim.
\<close>

type_synonym cell = "int \<times> int"

record point =
  point_id :: nat
  point_priority :: pyfloat
  main_footprint :: "cell list"
  extra_footprints :: "cell list list"
  label_footprint :: "cell list"

text \<open>
  The arguments of \<open>Occupied(width, height, overlap)\<close>. The object made by this call
  is mutable; a call that is handed it is recorded with these arguments.
\<close>

record occupied =
  occupied_width :: pyfloat
  occupied_height :: pyfloat
  occupied_overlap :: int

text \<open>
  \<open>Constructor\<close>: the collections the drawer reads. Trees, craters and direction
  sectors are only asked to draw themselves, so a number stands for each.
\<close>

record 'seg constructor =
  figures :: "styled_figure list"
  roads :: "road list"
  trees :: "nat list"
  craters :: "nat list"
  buildings :: "'seg building list"
  heights :: "pyfloat list"
  direction_sectors :: "nat list"
  points :: "point list"
  constructor_flinger :: flinger

text \<open>
  The drawer itself: \<open>self.flinger\<close>, \<open>self.scheme\<close>,
  \<open>self.configuration\<close>, \<open>self.background_color\<close>. The document
  \<open>self.svg\<close> is the state that every drawing function returns its additions to.
\<close>

record map_drawing =
  flinger :: flinger
  scheme :: scheme
  configuration :: map_configuration
  background_color :: color

section \<open>The scene document\<close>

text \<open>
  \<open>Shift h s\<close> stands for the array \<open>(0.0, -h * s * BUILDING_SCALE)\<close>. The
  constant \<open>BUILDING_SCALE\<close> belongs to feature/building.py, outside the given
  sources, so the product is kept by its operands.
\<close>

datatype shift = Shift pyfloat pyfloat

text \<open>
  The document is the list of what was added to it, in order. What mapper.py builds
  itself (the background rectangle, a figure's path, the shade group) is an element;
  a call of a drawing function defined in another module is an element that names
  the function and its arguments, and stands for whatever that function adds to the
  document at this place.
\<close>

datatype 'seg element =
    Rect vector vector color
  | SVGPath styled_figure
  | Roads_draw "road list"
  | Tree_draw nat
  | Crater_draw nat
  | Building_draw "'seg building"
  | Shade_group "'seg building list"
  | Draw_walls "'seg building" 'seg pyfloat shift shift
  | Draw_roof "'seg building" pyfloat
  | Direction_sector_draw nat
  | Draw_main_shapes point "occupied option"
  | Draw_extra_shapes point "occupied option"
  | Draw_texts point "occupied option" label_mode
  | Draw_text string vector pyfloat color pyfloat "color option" pyfloat
  | Intersection_draw "road_part list" bool

section \<open>Map.\_\_init\_\_\<close>

definition Map_init :: "flinger \<Rightarrow> scheme \<Rightarrow> map_configuration \<Rightarrow> map_drawing" where
  "Map_init flinger' scheme' configuration' =
     \<lparr>flinger = flinger', scheme = scheme', configuration = configuration',
      background_color =
        (case configured_background_color configuration' of
           Some color \<Rightarrow> color
         | None \<Rightarrow> get_color scheme' ''background_color'')\<rparr>"

section \<open>Map.draw\_buildings\<close>

text \<open>
  A Python \<open>dict\<close> as an association list in insertion order. An assignment to a key
  that is present replaces the value and keeps the key's place; a new key goes to
  the end.
\<close>

fun dict_set :: "('k \<times> 'v) list \<Rightarrow> 'k \<Rightarrow> 'v \<Rightarrow> ('k \<times> 'v) list" where
  "dict_set [] k v = [(k, v)]"
| "dict_set ((k', v') # d) k v =
     (if k' = k then (k', v) # d else (k', v') # dict_set d k v)"

definition dict_keys :: "('k \<times> 'v) list \<Rightarrow> 'k list" where
  "dict_keys d = map fst d"

text \<open>The inner loop \<open>for part in building.parts: walls[part] = building\<close>.\<close>

fun add_parts ::
  "('seg \<times> 'seg building) list \<Rightarrow> 'seg building \<Rightarrow> 'seg list \<Rightarrow> ('seg \<times> 'seg building) list"
where
  "add_parts walls building [] = walls"
| "add_parts walls building (part # rest) = add_parts (dict_set walls part building) building rest"

text \<open>The outer loop \<open>for building in constructor.buildings\<close>, from \<open>walls = {}\<close>.\<close>

fun add_buildings ::
  "('seg \<times> 'seg building) list \<Rightarrow> 'seg building list \<Rightarrow> ('seg \<times> 'seg building) list"
where
  "add_buildings walls [] = walls"
| "add_buildings walls (building # rest) =
     add_buildings (add_parts walls building (parts building)) rest"

definition collect_walls :: "'seg building list \<Rightarrow> ('seg \<times> 'seg building) list" where
  "collect_walls bs = add_buildings [] bs"

text \<open>
  \<open>sorted(walls.keys())\<close>. Python's \<open>sorted\<close> is stable and compares with
  \<open>Segment.__lt__\<close>, which is outside the given sources; it is taken as the
  comparison of a key \<open>segment_key\<close> into a linear order.
\<close>

definition sorted_walls :: "('seg \<Rightarrow> 'k::linorder) \<Rightarrow> ('seg \<times> 'seg building) list \<Rightarrow> 'seg list" where
  "sorted_walls segment_key walls = sort_key segment_key (dict_keys walls)"

text \<open>
  One pass of \<open>for wall in sorted_walls\<close> at a height slice. Every wall is a key of
  \<open>walls\<close> (lemma \<open>sorted_walls_lookup\<close> below), so the lookup \<open>walls[wall]\<close> finds
  its building; the branch for a missing key is never taken.
\<close>

definition draw_wall ::
  "('seg \<times> 'seg building) list \<Rightarrow> pyfloat \<Rightarrow> shift \<Rightarrow> shift \<Rightarrow> 'seg \<Rightarrow> 'seg element list"
where
  "draw_wall walls height' shift_1 shift_2 wall =
     (case map_of walls wall of
        None \<Rightarrow> []
      | Some building \<Rightarrow>
          if height building < height' \<or> min_height building \<ge> height' then []
          else [Draw_walls building wall height' shift_1 shift_2])"

definition draw_roofs_at :: "'seg building list \<Rightarrow> pyfloat \<Rightarrow> pyfloat \<Rightarrow> 'seg element list" where
  "draw_roofs_at bs scale height' =
     concat (map (\<lambda>building. if height building = height' then [Draw_roof building scale] else []) bs)"

text \<open>The loop \<open>for height in sorted(constructor.heights)\<close>, carrying \<open>previous_height\<close>.\<close>

fun height_loop ::
  "map_configuration \<Rightarrow> 'seg building list \<Rightarrow> ('seg \<times> 'seg building) list \<Rightarrow> 'seg list \<Rightarrow>
   pyfloat \<Rightarrow> pyfloat \<Rightarrow> pyfloat list \<Rightarrow> 'seg element list"
where
  "height_loop cfg bs walls ws scale previous_height [] = []"
| "height_loop cfg bs walls ws scale previous_height (height' # rest) =
     (let shift_1 = Shift previous_height scale;
          shift_2 = Shift height' scale
      in concat (map (draw_wall walls height' shift_1 shift_2) ws)
         @ (if draw_roofs cfg then draw_roofs_at bs scale height' else [])
         @ height_loop cfg bs walls ws scale height' rest)"

definition draw_buildings ::
  "('seg \<Rightarrow> 'k::linorder) \<Rightarrow> map_drawing \<Rightarrow> 'seg constructor \<Rightarrow> 'seg element list"
where
  "draw_buildings segment_key self constructor =
     (if building_mode (configuration self) = BuildingMode_NO then []
      else if building_mode (configuration self) = BuildingMode_FLAT then
        map Building_draw (buildings constructor)
      else
        (let scale = get_scale (flinger self);
             building_shade = Shade_group (buildings constructor);
             walls = collect_walls (buildings constructor);
             sorted_walls' = sorted_walls segment_key walls
         in [building_shade]
            @ height_loop (configuration self) (buildings constructor) walls sorted_walls'
                scale 0 (sort (heights constructor))))"

section \<open>Map.draw\_credits\<close>

text \<open>
  \<open>project\<close> is the constant \<open>__project__\<close> of the package, outside the given
  sources. The test \<open>if self.configuration.credit\<close> fails for \<open>None\<close> and for the
  empty string.
\<close>

definition draw_credits :: "string \<Rightarrow> map_drawing \<Rightarrow> vector \<Rightarrow> 'seg element list" where
  "draw_credits project self size' =
     (let right_margin = 15;
          bottom_margin = 15;
          font_size = 10;
          vertical_spacing = 2;
          text_color = ''#888888'';
          outline_color = ''#FFFFFF'';
          credit_list =
            [(''Rendering: '' @ project, (right_margin, bottom_margin))]
            @ (case credit (configuration self) of
                 None \<Rightarrow> []
               | Some c \<Rightarrow>
                   if c = [] then []
                   else [(''Data: '' @ c,
                          (right_margin, bottom_margin + font_size + vertical_spacing))])
      in concat (map (\<lambda>(text', point').
           map (\<lambda>(stroke_width, stroke, opacity).
                  Draw_text text' (fst size' - fst point', snd size' - snd point')
                    font_size text_color stroke_width stroke opacity)
               [(3, Some outline_color, 7 / 10), (1, None, 1)])
           credit_list))"

section \<open>Map.draw\<close>

definition ROAD_PRIORITY :: pyfloat where
  "ROAD_PRIORITY = 40"

text \<open>
  Modelled from the spec: \<open>Constructor.get_sorted_figures\<close> (constructor.py is not
  among the sources). The spec has the figures "in ascending priority then stable
  input order".
\<close>

definition get_sorted_figures :: "'seg constructor \<Rightarrow> styled_figure list" where
  "get_sorted_figures constructor =
     sort_key (\<lambda>figure. priority (line_style figure)) (figures constructor)"

text \<open>
  The two loops over figures: a path is added only when \<open>get_path\<close> returned a
  non-empty string.
\<close>

definition draw_figures :: "styled_figure list \<Rightarrow> 'seg element list" where
  "draw_figures fs =
     concat (map (\<lambda>figure. if get_path figure \<noteq> [] then [SVGPath figure] else []) fs)"

text \<open>
  The value bound to \<open>occupied\<close>: no tracker when the configured overlap is 0, else
  \<open>Occupied(self.flinger.size[0], self.flinger.size[1], self.configuration.overlap)\<close>.
\<close>

definition make_occupied :: "map_drawing \<Rightarrow> occupied option" where
  "make_occupied self =
     (if overlap (configuration self) = 0 then None
      else Some \<lparr>occupied_width = fst (flinger_size (flinger self)),
                 occupied_height = snd (flinger_size (flinger self)),
                 occupied_overlap = overlap (configuration self)\<rparr>)"

definition draw ::
  "('seg \<Rightarrow> 'k::linorder) \<Rightarrow> string \<Rightarrow> map_drawing \<Rightarrow> 'seg constructor \<Rightarrow> 'seg element list"
where
  "draw segment_key project self constructor =
     (let svg_0 = [Rect (0, 0) (flinger_size (flinger self)) (background_color self)];
          figures' = get_sorted_figures constructor;
          top_figures = filter (\<lambda>x. priority (line_style x) \<ge> ROAD_PRIORITY) figures';
          bottom_figures = filter (\<lambda>x. priority (line_style x) < ROAD_PRIORITY) figures';
          svg_1 = svg_0 @ draw_figures bottom_figures;
          svg_2 = svg_1 @ [Roads_draw (roads constructor)];
          svg_3 = svg_2 @ draw_figures top_figures;
          svg_4 = svg_3 @ map Tree_draw (trees constructor);
          svg_5 = svg_4 @ map Crater_draw (craters constructor);
          svg_6 = svg_5 @ draw_buildings segment_key self constructor;
          svg_7 = svg_6 @ map Direction_sector_draw (direction_sectors constructor);
          occupied' = make_occupied self;
          nodes' = sort_key (\<lambda>x. - point_priority x) (points constructor);
          svg_8 = svg_7 @ map (\<lambda>node. Draw_main_shapes node occupied') nodes';
          svg_9 = svg_8 @ map (\<lambda>point'. Draw_extra_shapes point' occupied') nodes';
          svg_10 = svg_9 @ concat (map (\<lambda>point'.
              if \<not> is_wireframe (configuration self)
                 \<and> label_mode (configuration self) \<noteq> LabelMode_NO
              then [Draw_texts point' occupied' (label_mode (configuration self))]
              else []) nodes')
      in svg_10 @ draw_credits project self (flinger_size (constructor_flinger constructor)))"

section \<open>Map.draw\_simple\_roads\<close>

text \<open>
  A Python \<open>set\<close> as the list of its members, each once, in the order they were
  added. \<open>s.add(x)\<close> leaves the set as it is when \<open>x\<close> is a member.
\<close>

definition set_add :: "'a list \<Rightarrow> 'a \<Rightarrow> 'a list" where
  "set_add s x = (if x \<in> set s then s else s @ [x])"

text \<open>
  \<open>nodes[node].add(part)\<close>. The key was stored two lines before, so the lookup
  finds it; on a dictionary without the key nothing is there to add to.
\<close>

fun dict_add :: "('k \<times> 'a list) list \<Rightarrow> 'k \<Rightarrow> 'a \<Rightarrow> ('k \<times> 'a list) list" where
  "dict_add [] k x = []"
| "dict_add ((k', s) # d) k x =
     (if k' = k then (k', set_add s x) # d else (k', s) # dict_add d k x)"

text \<open>The two lines \<open>if node not in nodes: nodes[node] = set()\<close>.\<close>

definition add_node :: "('k \<times> 'a list) list \<Rightarrow> 'k \<Rightarrow> ('k \<times> 'a list) list" where
  "add_node d node = (if node \<in> set (dict_keys d) then d else dict_set d node [])"

text \<open>
  The body of \<open>for index in range(len(road.nodes) - 1)\<close>, for the road numbered
  \<open>r\<close> in the iteration over \<open>roads\<close>.
\<close>

definition add_segment ::
  "flinger \<Rightarrow> road \<Rightarrow> nat \<Rightarrow> (osm_node \<times> road_part list) list \<Rightarrow> nat \<Rightarrow>
   (osm_node \<times> road_part list) list"
where
  "add_segment flinger' road' r nodes_0 index =
     (let node_1 = nodes road' ! index;
          node_2 = nodes road' ! (index + 1);
          point_1' = fling flinger' (coordinates node_1);
          point_2' = fling flinger' (coordinates node_2);
          scale = get_scale_at flinger' (coordinates node_1);
          part_1 = \<lparr>point_1 = point_1', point_2 = point_2', part_lanes = lanes road',
                    part_scale = scale, made_at = (r, index, False)\<rparr>;
          part_2 = \<lparr>point_1 = point_2', point_2 = point_1', part_lanes = lanes road',
                    part_scale = scale, made_at = (r, index, True)\<rparr>;
          nodes_1 = foldl add_node nodes_0 [node_1, node_2];
          nodes_2 = dict_add nodes_1 node_1 part_1
      in dict_add nodes_2 node_2 part_2)"

definition add_road ::
  "flinger \<Rightarrow> (osm_node \<times> road_part list) list \<Rightarrow> nat \<times> road \<Rightarrow> (osm_node \<times> road_part list) list"
where
  "add_road flinger' nodes_0 numbered =
     foldl (add_segment flinger' (snd numbered) (fst numbered)) nodes_0
       [0..<length (nodes (snd numbered)) - 1]"

definition collect_nodes :: "flinger \<Rightarrow> road list \<Rightarrow> (osm_node \<times> road_part list) list" where
  "collect_nodes flinger' roads' = foldl (add_road flinger') [] (enumerate 0 roads')"

text \<open>
  The loop over \<open>nodes.items()\<close>. \<open>list(parts)\<close> lists a set of objects in an order
  that the source does not fix; \<open>list_of_set\<close> is that listing.
\<close>

definition draw_simple_roads ::
  "(road_part list \<Rightarrow> road_part list) \<Rightarrow> map_drawing \<Rightarrow> road list \<Rightarrow> 'seg element list"
where
  "draw_simple_roads list_of_set self roads' =
     concat (map (\<lambda>(node, parts').
                    if length parts' < 4 then []
                    else [Intersection_draw (list_of_set parts') True])
        (collect_nodes (flinger self) roads'))"

text \<open>
  The road half-edges that meet at a node, counted on the roads themselves: one for
  every segment that starts at the node and one for every segment that ends there.
\<close>

definition half_edges_of_road :: "osm_node \<Rightarrow> road \<Rightarrow> nat" where
  "half_edges_of_road n road' =
     length (filter (\<lambda>index. nodes road' ! index = n) [0..<length (nodes road') - 1])
     + length (filter (\<lambda>index. nodes road' ! (index + 1) = n) [0..<length (nodes road') - 1])"

definition half_edges_at :: "osm_node \<Rightarrow> road list \<Rightarrow> nat" where
  "half_edges_at n roads' = sum_list (map (half_edges_of_road n) roads')"

text \<open>The set that the dictionary holds for a node; none for a node it does not know.\<close>

definition parts_at :: "(osm_node \<times> road_part list) list \<Rightarrow> osm_node \<Rightarrow> road_part list" where
  "parts_at d n = (case map_of d n of None \<Rightarrow> [] | Some parts' \<Rightarrow> parts')"

section \<open>Occupancy and the drawing methods of Point\<close>

text \<open>
  Modelled from the spec: the \<open>OccupancyTracker\<close> and the methods
  \<open>Point.draw_main_shapes\<close>, \<open>Point.draw_extra_shapes\<close> and
  \<open>Point.draw_texts\<close> (pictogram/point.py is not among the sources). The spec has
  the tracker as a "set of claimed regions", each main icon "claims its footprint in
  the OccupancyTracker if enabled; a claim failure means the icon is silently
  skipped", the extra icons "also occupancy-checked", and a label attempted "for
  every point whose icon was drawn", skipped silently when its claim fails.

  \<open>claim\<close> gives the claimed cells after a successful claim and \<open>None\<close> after a
  failed one. Without a tracker every claim succeeds and nothing is recorded.
\<close>

definition claim :: "occupied option \<Rightarrow> cell list \<Rightarrow> cell list \<Rightarrow> cell list option" where
  "claim tracker claimed' footprint =
     (case tracker of
        None \<Rightarrow> Some claimed'
      | Some _ \<Rightarrow>
          if list_ex (\<lambda>c. c \<in> set claimed') footprint then None
          else Some (claimed' @ footprint))"

text \<open>
  What the render has placed so far: the claimed cells, and the points whose main
  icon was drawn.
\<close>

record placement =
  claimed :: "cell list"
  painted :: "nat list"

text \<open>
  What ends up in the document: an element that no occupancy check stands before, a
  point's main icon, its extra icon of a given index, its label.
\<close>

datatype 'seg primitive =
    Added "'seg element"
  | Main_icon point
  | Extra_icon point nat
  | Label point label_mode

text \<open>
  The extra icons of one point, in order: the indices of those that were drawn, and
  the claimed cells afterwards.
\<close>

fun place_extras ::
  "occupied option \<Rightarrow> nat \<Rightarrow> cell list list \<Rightarrow> cell list \<Rightarrow> nat list \<times> cell list"
where
  "place_extras tracker i [] claimed' = ([], claimed')"
| "place_extras tracker i (footprint # rest) claimed' =
     (case claim tracker claimed' footprint of
        None \<Rightarrow> place_extras tracker (Suc i) rest claimed'
      | Some claimed'' \<Rightarrow>
          (i # fst (place_extras tracker (Suc i) rest claimed''),
           snd (place_extras tracker (Suc i) rest claimed'')))"

fun place :: "placement \<Rightarrow> 'seg element \<Rightarrow> 'seg primitive list \<times> placement" where
  "place st (Draw_main_shapes p tracker) =
     (case claim tracker (claimed st) (main_footprint p) of
        None \<Rightarrow> ([], st)
      | Some claimed' \<Rightarrow>
          ([Main_icon p], \<lparr>claimed = claimed', painted = point_id p # painted st\<rparr>))"
| "place st (Draw_extra_shapes p tracker) =
     (map (Extra_icon p) (fst (place_extras tracker 0 (extra_footprints p) (claimed st))),
      \<lparr>claimed = snd (place_extras tracker 0 (extra_footprints p) (claimed st)),
       painted = painted st\<rparr>)"
| "place st (Draw_texts p tracker mode) =
     (if point_id p \<in> set (painted st) then
        (case claim tracker (claimed st) (label_footprint p) of
           None \<Rightarrow> ([], st)
         | Some claimed' \<Rightarrow> ([Label p mode], \<lparr>claimed = claimed', painted = painted st\<rparr>))
      else ([], st))"
| "place st e = ([Added e], st)"

text \<open>The whole document: the elements in the order they were added, each placed.\<close>

fun emit :: "placement \<Rightarrow> 'seg element list \<Rightarrow> 'seg primitive list \<times> placement" where
  "emit st [] = ([], st)"
| "emit st (e # rest) =
     (fst (place st e) @ fst (emit (snd (place st e)) rest), snd (emit (snd (place st e)) rest))"

definition nothing_placed :: placement where
  "nothing_placed = \<lparr>claimed = [], painted = []\<rparr>"

text \<open>The icons and labels among the primitives.\<close>

fun is_icon_or_label :: "'seg primitive \<Rightarrow> bool" where
  "is_icon_or_label (Added _) = False"
| "is_icon_or_label _ = True"

text \<open>
  The calls of the two icon passes in a document, and the tracker that a call to a
  point's drawing method was handed.
\<close>

datatype icon_pass = Main_pass | Extra_pass

fun icon_call :: "'seg element \<Rightarrow> (icon_pass \<times> point) option" where
  "icon_call (Draw_main_shapes p _) = Some (Main_pass, p)"
| "icon_call (Draw_extra_shapes p _) = Some (Extra_pass, p)"
| "icon_call _ = None"

fun handed_tracker :: "'seg element \<Rightarrow> occupied option option" where
  "handed_tracker (Draw_main_shapes _ tracker) = Some tracker"
| "handed_tracker (Draw_extra_shapes _ tracker) = Some tracker"
| "handed_tracker (Draw_texts _ tracker _) = Some tracker"
| "handed_tracker _ = None"

section \<open>Layers of the document\<close>

text \<open>
  The layer an element belongs to. A figure's path is below or above the roads by the
  figure's priority, as the spec's layers 2 and 6 are told apart.
\<close>

datatype layer =
    Background | Figure_below_roads | Road_layer | Figure_above_roads
  | Tree_overlay | Crater_overlay | Building_layer | Direction_sector_layer
  | Main_icon_layer | Extra_icon_layer | Label_layer | Credit_layer

fun layer_of :: "'seg element \<Rightarrow> layer" where
  "layer_of (Rect _ _ _) = Background"
| "layer_of (SVGPath figure) =
     (if priority (line_style figure) < ROAD_PRIORITY then Figure_below_roads
      else Figure_above_roads)"
| "layer_of (Roads_draw _) = Road_layer"
| "layer_of (Tree_draw _) = Tree_overlay"
| "layer_of (Crater_draw _) = Crater_overlay"
| "layer_of (Building_draw _) = Building_layer"
| "layer_of (Shade_group _) = Building_layer"
| "layer_of (Draw_walls _ _ _ _ _) = Building_layer"
| "layer_of (Draw_roof _ _) = Building_layer"
| "layer_of (Direction_sector_draw _) = Direction_sector_layer"
| "layer_of (Draw_main_shapes _ _) = Main_icon_layer"
| "layer_of (Draw_extra_shapes _ _) = Extra_icon_layer"
| "layer_of (Draw_texts _ _ _) = Label_layer"
| "layer_of (Draw_text _ _ _ _ _ _ _) = Credit_layer"
| "layer_of (Intersection_draw _ _) = Road_layer"

text \<open>
  The place of each layer in the order the spec lists: (1) background, (2) figures
  below the road threshold, (3) roads, (4) trees and craters, (5) buildings,
  (6) figures at or above the threshold, (7) main icons then extra icons, (8) labels,
  (9) credits. The spec's list has no place for the direction sectors.
\<close>

fun spec_rank :: "layer \<Rightarrow> nat option" where
  "spec_rank Background = Some 1"
| "spec_rank Figure_below_roads = Some 2"
| "spec_rank Road_layer = Some 3"
| "spec_rank Tree_overlay = Some 4"
| "spec_rank Crater_overlay = Some 4"
| "spec_rank Building_layer = Some 5"
| "spec_rank Figure_above_roads = Some 6"
| "spec_rank Direction_sector_layer = None"
| "spec_rank Main_icon_layer = Some 7"
| "spec_rank Extra_icon_layer = Some 8"
| "spec_rank Label_layer = Some 9"
| "spec_rank Credit_layer = Some 10"

text \<open>The place of each layer in the order \<open>Map.draw\<close> adds them.\<close>

fun drawn_rank :: "layer \<Rightarrow> nat option" where
  "drawn_rank Background = Some 1"
| "drawn_rank Figure_below_roads = Some 2"
| "drawn_rank Road_layer = Some 3"
| "drawn_rank Figure_above_roads = Some 4"
| "drawn_rank Tree_overlay = Some 5"
| "drawn_rank Crater_overlay = Some 6"
| "drawn_rank Building_layer = Some 7"
| "drawn_rank Direction_sector_layer = Some 8"
| "drawn_rank Main_icon_layer = Some 9"
| "drawn_rank Extra_icon_layer = Some 10"
| "drawn_rank Label_layer = Some 11"
| "drawn_rank Credit_layer = Some 12"

text \<open>
  A document is in layer order when no element of a later layer stands before an
  element of an earlier one: the places of its elements never go down.
\<close>

definition in_layer_order :: "(layer \<Rightarrow> nat option) \<Rightarrow> 'seg element list \<Rightarrow> bool" where
  "in_layer_order rank svg = sorted (List.map_filter (\<lambda>e. rank (layer_of e)) svg)"


text \<open>The paths of figures and the call that draws the roads, among the elements.\<close>

fun figure_or_roads :: "'seg element \<Rightarrow> bool" where
  "figure_or_roads (SVGPath _) = True"
| "figure_or_roads (Roads_draw _) = True"
| "figure_or_roads _ = False"

section \<open>Walls, slices and owners\<close>

text \<open>
  The height slices of the extrusion: each height of the ascending list with the
  height before it; the first one starts from \<open>previous_height = 0.0\<close>.
\<close>

fun slices :: "pyfloat \<Rightarrow> pyfloat list \<Rightarrow> (pyfloat \<times> pyfloat) list" where
  "slices previous_height [] = []"
| "slices previous_height (height' # rest) = (previous_height, height') # slices height' rest"



fun is_roof :: "'seg element \<Rightarrow> bool" where
  "is_roof (Draw_roof _ _) = True"
| "is_roof _ = False"

fun is_wall_of :: "'seg \<Rightarrow> pyfloat \<Rightarrow> 'seg element \<Rightarrow> bool" where
  "is_wall_of w h (Draw_walls _ wall height' _ _) = (wall = w \<and> height' = h)"
| "is_wall_of w h _ = False"

text \<open>The extruded modes: every building mode but \<open>NO\<close> and \<open>FLAT\<close>.\<close>

definition extruded :: "map_drawing \<Rightarrow> bool" where
  "extruded self =
     (building_mode (configuration self) \<noteq> BuildingMode_NO
      \<and> building_mode (configuration self) \<noteq> BuildingMode_FLAT)"

section \<open>Segments and half-edges of the roads\<close>

text \<open>
  The segments in the order the two nested loops of \<open>draw_simple_roads\<close> visit them:
  the number of the road, the road, the index of the segment.
\<close>

definition segments :: "road list \<Rightarrow> (nat \<times> road \<times> nat) list" where
  "segments roads' =
     concat (map (\<lambda>(r, road'). map (\<lambda>index. (r, road', index)) [0..<length (nodes road') - 1])
       (enumerate 0 roads'))"

text \<open>
  The half-edges a segment gives to a node, by the call that makes them: the first
  \<open>RoadPart\<close> when the segment starts at the node, the second when it ends there.
\<close>

definition half_edges :: "osm_node \<Rightarrow> nat \<times> road \<times> nat \<Rightarrow> (nat \<times> nat \<times> bool) list" where
  "half_edges n = (\<lambda>(r, road', index).
     (if nodes road' ! index = n then [(r, index, False)] else [])
     @ (if nodes road' ! (index + 1) = n then [(r, index, True)] else []))"

section \<open>The passes over the points\<close>

text \<open>The document as it stands when the drawer turns to the points.\<close>

definition drawn_before_points ::
  "('seg \<Rightarrow> 'k::linorder) \<Rightarrow> map_drawing \<Rightarrow> 'seg constructor \<Rightarrow> 'seg element list"
where
  "drawn_before_points segment_key self constructor =
     [Rect (0, 0) (flinger_size (flinger self)) (background_color self)]
     @ draw_figures (filter (\<lambda>x. priority (line_style x) < ROAD_PRIORITY)
         (get_sorted_figures constructor))
     @ [Roads_draw (roads constructor)]
     @ draw_figures (filter (\<lambda>x. priority (line_style x) \<ge> ROAD_PRIORITY)
         (get_sorted_figures constructor))
     @ map Tree_draw (trees constructor)
     @ map Crater_draw (craters constructor)
     @ draw_buildings segment_key self constructor
     @ map Direction_sector_draw (direction_sectors constructor)"

text \<open>The priorities of the points whose main icon is asked for, in the order of the calls.\<close>

fun main_icon_priority :: "'seg element \<Rightarrow> pyfloat option" where
  "main_icon_priority (Draw_main_shapes p _) = Some (point_priority p)"
| "main_icon_priority _ = None"

definition strictly_descending :: "pyfloat list \<Rightarrow> bool" where
  "strictly_descending xs = sorted_wrt (\<lambda>a b. a > b) xs"

definition descending :: "pyfloat list \<Rightarrow> bool" where
  "descending xs = sorted_wrt (\<lambda>a b. a \<ge> b) xs"

text \<open>Whether the label pass draws: not in wireframe mode, and the label mode is not \<open>NO\<close>.\<close>

definition labels_enabled :: "map_drawing \<Rightarrow> bool" where
  "labels_enabled self =
     (\<not> is_wireframe (configuration self) \<and> label_mode (configuration self) \<noteq> LabelMode_NO)"

section \<open>Icons: the scheme and the check of the icon tests\<close>

text \<open>
  \<open>ShapeSpecification\<close>, \<open>Icon\<close> and \<open>IconSet\<close> (pictogram/icon.py, outside the
  given sources), by the attributes that \<open>check_icon_set\<close> of tests/test\_icons.py
  reads: \<open>shape.id_\<close> and \<open>color\<close> of a shape specification, the
  \<open>shape_specifications\<close> of an icon, \<open>main_icon\<close> and \<open>extra_icons\<close> of an icon
  set. A colour is the string that names it, and \<open>Color(c)\<close> of a colour is that
  colour.
\<close>

record shape_specification =
  shape_id :: string
  shape_color :: color

record icon =
  shape_specifications :: "shape_specification list"

record icon_set =
  main_icon :: icon
  extra_icons :: "icon list"

definition DEFAULT_SHAPE_ID :: string where
  "DEFAULT_SHAPE_ID = ''default''"

text \<open>
  Modelled from the spec: \<open>Icon.is_default\<close> (pictogram/icon.py is not among the
  sources). The spec has the default icon as "exactly the default shape".
\<close>

definition is_default :: "icon \<Rightarrow> bool" where
  "is_default icon' = (map shape_id (shape_specifications icon') = [DEFAULT_SHAPE_ID])"

text \<open>
  \<open>check_icon_set\<close> of tests/test\_icons.py: whether every assertion of the check
  holds. A specification is a list of pairs of a shape identifier and a colour.
\<close>

definition check_shapes :: "(string \<times> color) list \<Rightarrow> shape_specification list \<Rightarrow> bool" where
  "check_shapes specification shapes =
     (length specification = length shapes
      \<and> list_all (\<lambda>index.
            shape_id (shapes ! index) = fst (specification ! index)
            \<and> shape_color (shapes ! index) = snd (specification ! index))
          [0..<length specification])"

definition check_icon_set ::
  "icon_set \<Rightarrow> (string \<times> color) list \<Rightarrow> (string \<times> color) list list \<Rightarrow> bool"
where
  "check_icon_set icon' main_specification extra_specifications =
     ((if main_specification = [] then is_default (main_icon icon')
       else \<not> is_default (main_icon icon')
            \<and> check_shapes main_specification (shape_specifications (main_icon icon')))
      \<and> length extra_specifications = length (extra_icons icon')
      \<and> list_all (\<lambda>i.
            check_shapes (extra_specifications ! i) (shape_specifications (extra_icons icon' ! i)))
          [0..<length extra_specifications])"

text \<open>
  Modelled from the spec: \<open>Scheme.get_icon\<close> and the rules of the scheme (scheme.py
  and the scheme file are not among the sources). The spec has a rule as a set of
  predicates over the tags (exact key and value, presence of a key, a value from
  which a pattern takes its digits) with a resolution, an ordered list of shapes
  with their colours; a rule whose pattern takes the digits of a value gives "one
  shape per digit plus a frame shape". The first main rule that matches gives the
  main icon; every extra rule that matches gives one extra icon, in the order the
  rules are declared; with no main rule matching, the main icon is the default shape
  in the colour of the \<open>colour\<close> tag when there is one, else in the default colour.
\<close>

datatype predicate = Exact string string | Present string | Digits string

datatype shape_rule = Shape string color | Digit_shapes string color

record style_rule =
  conditions :: "predicate list"
  shapes :: "shape_rule list"

record icon_rules =
  main_rules :: "style_rule list"
  extra_rules :: "style_rule list"
  default_color :: color
  extra_color :: color

definition is_digit :: "char \<Rightarrow> bool" where
  "is_digit c = (c \<in> set ''0123456789'')"

fun satisfied :: "(string \<times> string) list \<Rightarrow> predicate \<Rightarrow> bool" where
  "satisfied tags (Exact key' value') = (map_of tags key' = Some value')"
| "satisfied tags (Present key') = (map_of tags key' \<noteq> None)"
| "satisfied tags (Digits key') =
     (case map_of tags key' of
        None \<Rightarrow> False
      | Some value' \<Rightarrow> value' \<noteq> [] \<and> list_all is_digit value')"

definition rule_matches :: "(string \<times> string) list \<Rightarrow> style_rule \<Rightarrow> bool" where
  "rule_matches tags rule = list_all (satisfied tags) (conditions rule)"

fun resolve_shape :: "(string \<times> string) list \<Rightarrow> shape_rule \<Rightarrow> shape_specification list" where
  "resolve_shape tags (Shape identifier color') =
     [\<lparr>shape_id = identifier, shape_color = color'\<rparr>]"
| "resolve_shape tags (Digit_shapes key' color') =
     (case map_of tags key' of
        None \<Rightarrow> []
      | Some value' \<Rightarrow> map (\<lambda>digit. \<lparr>shape_id = ''digit_'' @ [digit], shape_color = color'\<rparr>) value')"

definition resolve_rule :: "(string \<times> string) list \<Rightarrow> style_rule \<Rightarrow> icon" where
  "resolve_rule tags rule = \<lparr>shape_specifications = concat (map (resolve_shape tags) (shapes rule))\<rparr>"

definition get_icon :: "icon_rules \<Rightarrow> (string \<times> string) list \<Rightarrow> icon_set" where
  "get_icon scheme' tags =
     \<lparr>main_icon =
        (case find (rule_matches tags) (main_rules scheme') of
           Some rule \<Rightarrow> resolve_rule tags rule
         | None \<Rightarrow>
             \<lparr>shape_specifications =
                [\<lparr>shape_id = DEFAULT_SHAPE_ID,
                  shape_color = (case map_of tags ''colour'' of
                                   Some color' \<Rightarrow> color'
                                 | None \<Rightarrow> default_color scheme')\<rparr>]\<rparr>),
      extra_icons = map (resolve_rule tags) (filter (rule_matches tags) (extra_rules scheme'))\<rparr>"

text \<open>
  Modelled from the spec: the rules of the scheme that the spec's scenarios name.
  The shape identifiers and the colours of the tree and of the digits are those of
  tests/test\_icons.py; the default and the extra colour are the scheme's own.
\<close>

definition WHITE :: color where
  "WHITE = ''white''"

definition scenario_scheme :: "color \<Rightarrow> color \<Rightarrow> icon_rules" where
  "scenario_scheme default' extra' =
     \<lparr>main_rules =
        [\<lparr>conditions = [Exact ''natural'' ''tree''], shapes = [Shape ''tree'' ''#98AC64'']\<rparr>,
         \<lparr>conditions = [Exact ''barrier'' ''gate''], shapes = [Shape ''gate'' default']\<rparr>,
         \<lparr>conditions = [Exact ''traffic_sign'' ''maxspeed'', Digits ''maxspeed''],
          shapes = [Shape ''circle_11'' default', Digit_shapes ''maxspeed'' WHITE]\<rparr>],
      extra_rules =
        [\<lparr>conditions = [Exact ''bicycle'' ''yes''], shapes = [Shape ''bicycle'' extra']\<rparr>,
         \<lparr>conditions = [Exact ''access'' ''private''],
          shapes = [Shape ''lock_with_keyhole'' extra']\<rparr>],
      default_color = default', extra_color = extra'\<rparr>"

section \<open>Runs of the render\<close>

text \<open>
  Two runs on the same input can differ only where Python lists a \<open>set\<close>: the
  recorded heights before they are sorted, and the parts of a node in
  \<open>list(parts)\<close>. A listing of sets gives for every set a list of the same members.
\<close>

definition lists_sets :: "(road_part list \<Rightarrow> road_part list) \<Rightarrow> bool" where
  "lists_sets list_of_set = (\<forall>ps. mset (list_of_set ps) = mset ps)"

text \<open>
  Modelled from the spec: the order in which \<open>Intersection\<close> (feature/road.py, not
  among the sources) takes the half-edges it is given. The spec has it "order the
  half-edges by angle around the node" and break ties "by a stable secondary key
  (e.g., road identifier)". The angle of a half-edge is a parameter; the secondary
  key is the number of the road, then the segment and the end of it that the
  half-edge was made for.
\<close>

definition order_half_edges :: "(road_part \<Rightarrow> 'a::linorder) \<Rightarrow> road_part list \<Rightarrow> road_part list" where
  "order_half_edges angle ps = sort_key (\<lambda>p. (angle p, made_at p)) ps"

text \<open>The half-edges of a junction in the order its geometry is built from.\<close>

fun junction_geometry :: "(road_part \<Rightarrow> 'a::linorder) \<Rightarrow> 'seg element \<Rightarrow> road_part list option" where
  "junction_geometry angle (Intersection_draw ps _) = Some (order_half_edges angle ps)"
| "junction_geometry angle _ = None"

section \<open>Example scenes\<close>

definition example_flinger :: flinger where
  "example_flinger =
     \<lparr>flinger_size = (100, 80), get_scale = 2, fling = (\<lambda>c. c), get_scale_at = (\<lambda>c. 2)\<rparr>"

definition example_configuration :: map_configuration where
  "example_configuration =
     \<lparr>overlap = 12, building_mode = BuildingMode_other ''ISOMETRIC'', draw_roofs = True,
      label_mode = LabelMode_other ''MAIN'', is_wireframe = False, credit = None,
      configured_background_color = None\<rparr>"

definition example_map :: map_drawing where
  "example_map =
     Map_init example_flinger \<lparr>get_color = (\<lambda>name. ''#EEEEEE'')\<rparr> example_configuration"

definition overlay_figure :: styled_figure where
  "overlay_figure = \<lparr>line_style = \<lparr>priority = 50, style = []\<rparr>, get_path = ''M 0,0 L 1,1''\<rparr>"

definition tree_scene :: "nat constructor" where
  "tree_scene =
     \<lparr>figures = [overlay_figure], roads = [], trees = [7], craters = [], buildings = [],
      heights = [], direction_sectors = [], points = [], constructor_flinger = example_flinger\<rparr>"

definition pathless_figure :: styled_figure where
  "pathless_figure = \<lparr>line_style = \<lparr>priority = 10, style = []\<rparr>, get_path = []\<rparr>"

definition pathless_scene :: "nat constructor" where
  "pathless_scene =
     \<lparr>figures = [pathless_figure], roads = [], trees = [], craters = [], buildings = [],
      heights = [], direction_sectors = [], points = [], constructor_flinger = example_flinger\<rparr>"

text \<open>
  Two buildings that share the wall segment 12: a tower of height 10 and, after it in
  the list, a shed of height 5. The heights are listed as a set may list them.
\<close>

definition tower :: "nat building" where
  "tower = \<lparr>building_id = 1, height = 10, min_height = 0, parts = [11, 12]\<rparr>"

definition shed :: "nat building" where
  "shed = \<lparr>building_id = 2, height = 5, min_height = 0, parts = [12, 13]\<rparr>"

definition shared_wall_scene :: "nat constructor" where
  "shared_wall_scene =
     \<lparr>figures = [], roads = [], trees = [], craters = [], buildings = [tower, shed],
      heights = [10, 5], direction_sectors = [], points = [],
      constructor_flinger = example_flinger\<rparr>"

definition roofless_map :: map_drawing where
  "roofless_map =
     Map_init example_flinger \<lparr>get_color = (\<lambda>name. ''#EEEEEE'')\<rparr>
       (example_configuration\<lparr>draw_roofs := False\<rparr>)"

text \<open>
  Four roads that leave one centre node, each to a node of its own; and the first
  three of them.
\<close>

definition centre :: osm_node where
  "centre = \<lparr>node_id = 100, coordinates = (0, 0)\<rparr>"

definition outer_node :: "nat \<Rightarrow> osm_node" where
  "outer_node k = \<lparr>node_id = k, coordinates = (of_nat k, 1)\<rparr>"

definition spoke :: "nat \<Rightarrow> road" where
  "spoke k = \<lparr>nodes = [centre, outer_node k], lanes = 2\<rparr>"

definition crossing :: "road list" where
  "crossing = [spoke 11, spoke 12, spoke 13, spoke 14]"

definition fork :: "road list" where
  "fork = [spoke 11, spoke 12, spoke 13]"

text \<open>
  Three points: two of the same priority whose main icons would claim the same cell,
  and a third of lower priority elsewhere. The first has one extra icon.
\<close>

definition first_twin :: point where
  "first_twin = \<lparr>point_id = 1, point_priority = 5, main_footprint = [(0, 0)],
     extra_footprints = [[(0, 1)]], label_footprint = [(0, 2)]\<rparr>"

definition second_twin :: point where
  "second_twin = \<lparr>point_id = 2, point_priority = 5, main_footprint = [(0, 0)],
     extra_footprints = [], label_footprint = [(0, 3)]\<rparr>"

definition loner :: point where
  "loner = \<lparr>point_id = 3, point_priority = 1, main_footprint = [(9, 9)],
     extra_footprints = [], label_footprint = [(9, 10)]\<rparr>"

definition crowded_scene :: "nat constructor" where
  "crowded_scene =
     \<lparr>figures = [], roads = [], trees = [], craters = [], buildings = [],
      heights = [], direction_sectors = [], points = [loner, first_twin, second_twin],
      constructor_flinger = example_flinger\<rparr>"

definition untracked_map :: map_drawing where
  "untracked_map =
     Map_init example_flinger \<lparr>get_color = (\<lambda>name. ''#EEEEEE'')\<rparr>
       (example_configuration\<lparr>overlap := 0\<rparr>)"

definition example_tracker :: occupied where
  "example_tracker = \<lparr>occupied_width = 100, occupied_height = 80, occupied_overlap = 12\<rparr>"

section \<open>Properties\<close>

subsection \<open>The order of the layers\<close>

lemma draw_tree_scene:
  "draw (\<lambda>s::nat. s) ''Map Machine'' example_map tree_scene =
    [Rect (0, 0) (100, 80) ''#EEEEEE'', Roads_draw [], SVGPath overlay_figure, Tree_draw 7,
     Shade_group [],
     Draw_text ''Rendering: Map Machine'' (85, 65) 10 ''#888888'' 3 (Some ''#FFFFFF'') (7 / 10),
     Draw_text ''Rendering: Map Machine'' (85, 65) 10 ''#888888'' 1 None 1]"
  by (simp add: draw_def draw_figures_def get_sorted_figures_def draw_buildings_def
      draw_credits_def tree_scene_def example_map_def Map_init_def example_configuration_def
      example_flinger_def overlay_figure_def ROAD_PRIORITY_def collect_walls_def
      sorted_walls_def dict_keys_def make_occupied_def Let_def)

text \<open>
  C1, as the spec has it, fails: the spec puts the figures at or above the road
  threshold (its layer 6) after the trees and craters (4) and the buildings (5), but
  \<open>Map.draw\<close> adds them right after the roads. In a scene with one such figure and
  one tree, the figure's path stands before the tree.
\<close>

theorem C1_counterexample:
  "\<not> in_layer_order spec_rank (draw (\<lambda>s::nat. s) ''Map Machine'' example_map tree_scene)"
  by (simp add: draw_tree_scene in_layer_order_def overlay_figure_def ROAD_PRIORITY_def)

lemma map_filter_append_list:
  "List.map_filter f (xs @ ys) = List.map_filter f xs @ List.map_filter f ys"
  by (simp add: List.map_filter_def)

lemma set_map_filter_iff:
  "a \<in> set (List.map_filter f xs) \<longleftrightarrow> (\<exists>x\<in>set xs. f x = Some a)"
  by (induction xs) (auto simp: List.map_filter_simps split: option.splits)

lemma constant_list_sorted:
  fixes zs :: "nat list"
  shows "\<forall>a\<in>set zs. a = m \<Longrightarrow> sorted zs"
  by (induction zs) auto

lemma same_layer_in_order:
  assumes "\<forall>e\<in>set xs. rank (layer_of e) = Some m"
  shows "in_layer_order rank xs"
proof -
  have "\<forall>a\<in>set (List.map_filter (\<lambda>e. rank (layer_of e)) xs). a = m"
    using assms by (auto simp: set_map_filter_iff)
  then show ?thesis
    unfolding in_layer_order_def by (rule constant_list_sorted)
qed

lemma next_layer_in_order:
  assumes prefix:
      "in_layer_order rank xs \<and> (\<forall>x\<in>set xs. \<forall>a. rank (layer_of x) = Some a \<longrightarrow> a \<le> n)"
    and same: "\<forall>e\<in>set ys. rank (layer_of e) = Some m"
    and step: "n \<le> m"
  shows "in_layer_order rank (xs @ ys)
    \<and> (\<forall>x\<in>set (xs @ ys). \<forall>a. rank (layer_of x) = Some a \<longrightarrow> a \<le> m)"
proof
  have "in_layer_order rank ys"
    using same by (rule same_layer_in_order)
  moreover have "\<forall>a\<in>set (List.map_filter (\<lambda>e. rank (layer_of e)) xs).
      \<forall>b\<in>set (List.map_filter (\<lambda>e. rank (layer_of e)) ys). a \<le> b"
    using prefix same step by (fastforce simp: set_map_filter_iff)
  ultimately show "in_layer_order rank (xs @ ys)"
    using prefix unfolding in_layer_order_def
    by (simp add: map_filter_append_list sorted_append)
next
  show "\<forall>x\<in>set (xs @ ys). \<forall>a. rank (layer_of x) = Some a \<longrightarrow> a \<le> m"
    using prefix same step by fastforce
qed

lemma layer_of_height_loop:
  "e \<in> set (height_loop cfg bs walls ws scale previous_height hs) \<Longrightarrow> layer_of e = Building_layer"
  by (induction hs arbitrary: previous_height)
     (auto simp: Let_def draw_wall_def draw_roofs_at_def split: option.splits if_splits)

lemma layer_of_draw_buildings:
  "e \<in> set (draw_buildings segment_key self constructor) \<Longrightarrow> layer_of e = Building_layer"
  by (auto simp: draw_buildings_def Let_def dest: layer_of_height_loop split: if_splits)

lemma layer_of_draw_credits:
  "e \<in> set (draw_credits project self size') \<Longrightarrow> layer_of e = Credit_layer"
  by (auto simp: draw_credits_def Let_def split: option.splits if_splits)

lemma layer_of_bottom_figures:
  "e \<in> set (draw_figures (filter (\<lambda>x. priority (line_style x) < ROAD_PRIORITY) fs))
    \<Longrightarrow> layer_of e = Figure_below_roads"
  by (auto simp: draw_figures_def split: if_splits)

lemma layer_of_top_figures:
  "e \<in> set (draw_figures (filter (\<lambda>x. priority (line_style x) \<ge> ROAD_PRIORITY) fs))
    \<Longrightarrow> layer_of e = Figure_above_roads"
  by (auto simp: draw_figures_def split: if_splits)

text \<open>
  C1, amended: for every drawable set, the document that \<open>Map.draw\<close> builds is in the
  order (1) background rectangle, (2) figures below the road threshold, (3) roads,
  (4) figures at or above the threshold, (5) trees, (6) craters, (7) buildings
  (flat, or shade, walls and roofs), (8) direction sectors, (9) main icons,
  (10) extra icons, (11) labels, (12) credits: no element of a later layer stands
  before an element of an earlier one.
\<close>

theorem C1_drawn_order:
  "in_layer_order drawn_rank (draw segment_key project self constructor)"
proof -
  let ?r = "drawn_rank"
  define s0 :: "'a element list" where "s0 = [Rect (0, 0) (flinger_size (flinger self)) (background_color self)]"
  define s1 where "s1 = s0 @ draw_figures (filter (\<lambda>x. priority (line_style x) < ROAD_PRIORITY) (get_sorted_figures constructor))"
  define s2 where "s2 = s1 @ [Roads_draw (roads constructor)]"
  define s3 where "s3 = s2 @ draw_figures (filter (\<lambda>x. priority (line_style x) \<ge> ROAD_PRIORITY) (get_sorted_figures constructor))"
  define s4 where "s4 = s3 @ map Tree_draw (trees constructor)"
  define s5 where "s5 = s4 @ map Crater_draw (craters constructor)"
  define s6 where "s6 = s5 @ draw_buildings segment_key self constructor"
  define s7 where "s7 = s6 @ map Direction_sector_draw (direction_sectors constructor)"
  define occ where "occ = make_occupied self"
  define ns where "ns = sort_key (\<lambda>x. - point_priority x) (points constructor)"
  define s8 where "s8 = s7 @ map (\<lambda>node. Draw_main_shapes node occ) ns"
  define s9 where "s9 = s8 @ map (\<lambda>point'. Draw_extra_shapes point' occ) ns"
  define s10 where "s10 = s9 @ concat (map (\<lambda>point'.
              if \<not> is_wireframe (configuration self)
                 \<and> label_mode (configuration self) \<noteq> LabelMode_NO
              then [Draw_texts point' occ (label_mode (configuration self))]
              else []) ns)"
  define s11 where "s11 = s10 @ draw_credits project self (flinger_size (constructor_flinger constructor))"
  have draw_eq: "draw segment_key project self constructor = s11"
    unfolding draw_def Let_def s0_def s1_def s2_def s3_def s4_def s5_def s6_def s7_def
        s8_def s9_def s10_def s11_def occ_def ns_def by (rule refl)
  let ?U = "\<lambda>n xs. in_layer_order ?r xs \<and> (\<forall>x\<in>set xs. \<forall>a. ?r (layer_of x) = Some a \<longrightarrow> a \<le> (n::nat))"
  have u0: "?U 1 s0"
    by (simp add: s0_def in_layer_order_def)
  have u1: "?U 2 s1"
    unfolding s1_def by (rule next_layer_in_order[OF u0]) (auto dest: layer_of_bottom_figures)
  have u2: "?U 3 s2"
    unfolding s2_def by (rule next_layer_in_order[OF u1]) auto
  have u3: "?U 4 s3"
    unfolding s3_def by (rule next_layer_in_order[OF u2]) (auto dest: layer_of_top_figures)
  have u4: "?U 5 s4"
    unfolding s4_def by (rule next_layer_in_order[OF u3]) auto
  have u5: "?U 6 s5"
    unfolding s5_def by (rule next_layer_in_order[OF u4]) auto
  have u6: "?U 7 s6"
    unfolding s6_def by (rule next_layer_in_order[OF u5]) (auto dest: layer_of_draw_buildings)
  have u7: "?U 8 s7"
    unfolding s7_def by (rule next_layer_in_order[OF u6]) auto
  have u8: "?U 9 s8"
    unfolding s8_def by (rule next_layer_in_order[OF u7]) auto
  have u9: "?U 10 s9"
    unfolding s9_def by (rule next_layer_in_order[OF u8]) auto
  have u10: "?U 11 s10"
    unfolding s10_def by (rule next_layer_in_order[OF u9]) (auto split: if_splits)
  have "?U 12 s11"
    unfolding s11_def by (rule next_layer_in_order[OF u10]) (auto dest: layer_of_draw_credits)
  then show ?thesis by (simp add: draw_eq)
qed

subsection \<open>Figures below and above the roads\<close>

lemma draw_figures_paths:
  "draw_figures fs = map SVGPath (filter (\<lambda>f. get_path f \<noteq> []) fs)"
  by (induction fs) (simp_all add: draw_figures_def)

lemma figure_or_roads_layer:
  "figure_or_roads e \<Longrightarrow> layer_of e \<noteq> Building_layer \<and> layer_of e \<noteq> Credit_layer"
  by (cases e) simp_all

lemma no_figures_in_buildings:
  "filter figure_or_roads (draw_buildings segment_key self constructor) = []"
  by (auto simp: filter_empty_conv dest: layer_of_draw_buildings figure_or_roads_layer)

lemma no_figures_in_credits:
  "filter figure_or_roads (draw_credits project self size') = []"
  by (auto simp: filter_empty_conv dest: layer_of_draw_credits figure_or_roads_layer)

lemma no_figures_in_texts:
  "filter figure_or_roads (concat (map (\<lambda>p. if b then [Draw_texts p tracker mode] else []) ps)) = []"
  by (induction ps) simp_all

lemma sorted_figures_split:
  "filter Q (get_sorted_figures constructor) =
     sort_key (\<lambda>f. priority (line_style f)) (filter Q (figures constructor))"
  by (simp add: get_sorted_figures_def filter_sort)

text \<open>
  C2, as stated, fails: a figure whose \<open>get_path\<close> is the empty string is skipped by
  the guard \<open>if path_commands\<close>, so a figure below the threshold need not be drawn
  before the roads, nor anywhere.
\<close>

theorem C2_counterexample:
  "pathless_figure \<in> set (figures pathless_scene)
   \<and> priority (line_style pathless_figure) < ROAD_PRIORITY
   \<and> SVGPath pathless_figure \<notin> set (draw (\<lambda>s::nat. s) ''Map Machine'' example_map pathless_scene)"
  by (simp add: draw_def draw_figures_def get_sorted_figures_def draw_buildings_def
      draw_credits_def pathless_scene_def pathless_figure_def example_map_def Map_init_def
      example_configuration_def example_flinger_def ROAD_PRIORITY_def collect_walls_def
      sorted_walls_def dict_keys_def make_occupied_def Let_def)

text \<open>
  C2, amended: the threshold is 40; the paths and the road call of the document are,
  in this order, the paths of exactly the figures with a non-empty path and a
  priority below the threshold, in ascending priority and, among equal priorities,
  in input order; then the one call that draws all roads, whatever their priority;
  then the paths of exactly the figures with a non-empty path and a priority at or
  above the threshold, ordered in the same way.
\<close>

theorem C2_figures_around_roads:
  "ROAD_PRIORITY = 40
   \<and> filter figure_or_roads (draw segment_key project self constructor) =
       map SVGPath (sort_key (\<lambda>f. priority (line_style f))
         (filter (\<lambda>f. priority (line_style f) < ROAD_PRIORITY \<and> get_path f \<noteq> [])
            (figures constructor)))
       @ [Roads_draw (roads constructor)]
       @ map SVGPath (sort_key (\<lambda>f. priority (line_style f))
         (filter (\<lambda>f. ROAD_PRIORITY \<le> priority (line_style f) \<and> get_path f \<noteq> [])
            (figures constructor)))
   \<and> sorted (map (\<lambda>f. priority (line_style f)) (sort_key (\<lambda>f. priority (line_style f))
         (filter (\<lambda>f. priority (line_style f) < ROAD_PRIORITY \<and> get_path f \<noteq> [])
            (figures constructor))))
   \<and> sorted (map (\<lambda>f. priority (line_style f)) (sort_key (\<lambda>f. priority (line_style f))
         (filter (\<lambda>f. ROAD_PRIORITY \<le> priority (line_style f) \<and> get_path f \<noteq> [])
            (figures constructor))))"
proof -
  have "filter figure_or_roads (draw segment_key project self constructor) =
      draw_figures (filter (\<lambda>x. priority (line_style x) < ROAD_PRIORITY) (get_sorted_figures constructor))
      @ [Roads_draw (roads constructor)]
      @ draw_figures (filter (\<lambda>x. ROAD_PRIORITY \<le> priority (line_style x)) (get_sorted_figures constructor))"
    unfolding draw_def Let_def
    by (simp add: no_figures_in_buildings no_figures_in_credits no_figures_in_texts
        draw_figures_paths filter_map comp_def)
  then show ?thesis
    by (simp add: draw_figures_paths sorted_figures_split filter_sort ROAD_PRIORITY_def)
qed

subsection \<open>The dictionary of walls\<close>

lemma dict_keys_dict_set_old: "k \<in> set (dict_keys d) \<Longrightarrow> dict_keys (dict_set d k v) = dict_keys d"
proof (induction d)
  case Nil
  then show ?case by (simp add: dict_keys_def)
next
  case (Cons entry d)
  show ?case
  proof (cases "fst entry = k")
    case True
    then show ?thesis by (cases entry) (simp add: dict_keys_def)
  next
    case False
    with Cons.prems have "k \<in> set (dict_keys d)" by (auto simp: dict_keys_def)
    with Cons.IH False show ?thesis by (cases entry) (simp add: dict_keys_def)
  qed
qed

lemma dict_keys_dict_set_new: "k \<notin> set (dict_keys d) \<Longrightarrow> dict_keys (dict_set d k v) = dict_keys d @ [k]"
  by (induction d) (auto simp: dict_keys_def)

lemma dict_keys_dict_set:
  "dict_keys (dict_set d k v) = (if k \<in> set (dict_keys d) then dict_keys d else dict_keys d @ [k])"
  by (simp add: dict_keys_dict_set_old dict_keys_dict_set_new)

lemma map_of_dict_set: "map_of (dict_set d k v) = (map_of d)(k \<mapsto> v)"
  by (induction d) (auto simp: fun_eq_iff)

lemma dict_keys_add_parts:
  "set (dict_keys (add_parts walls b ps)) = set (dict_keys walls) \<union> set ps"
  by (induction ps arbitrary: walls) (auto simp: dict_keys_dict_set)

lemma distinct_add_parts:
  "distinct (dict_keys walls) \<Longrightarrow> distinct (dict_keys (add_parts walls b ps))"
  by (induction ps arbitrary: walls) (auto simp: dict_keys_dict_set)


lemma dict_keys_add_buildings:
  "set (dict_keys (add_buildings walls bs)) = set (dict_keys walls) \<union> (\<Union>b\<in>set bs. set (parts b))"
  by (induction bs arbitrary: walls) (auto simp: dict_keys_add_parts)

lemma distinct_add_buildings:
  "distinct (dict_keys walls) \<Longrightarrow> distinct (dict_keys (add_buildings walls bs))"
  by (induction bs arbitrary: walls) (auto simp: distinct_add_parts)



lemma distinct_collect_walls: "distinct (dict_keys (collect_walls bs))"
  unfolding collect_walls_def by (rule distinct_add_buildings) (simp add: dict_keys_def)

lemma set_collect_walls: "set (dict_keys (collect_walls bs)) = (\<Union>b\<in>set bs. set (parts b))"
  using dict_keys_add_buildings[of "[]" bs] by (simp add: collect_walls_def dict_keys_def)


lemma sorted_walls_lookup:
  "w \<in> set (sorted_walls segment_key (collect_walls bs)) \<Longrightarrow> map_of (collect_walls bs) w \<noteq> None"
  by (simp add: sorted_walls_def dict_keys_def map_of_eq_None_iff)


subsection \<open>The loop over the heights\<close>

lemma height_loop_slices:
  "height_loop cfg bs walls ws scale previous_height hs =
     concat (map (\<lambda>(p, h).
         concat (map (draw_wall walls h (Shift p scale) (Shift h scale)) ws)
         @ (if draw_roofs cfg then draw_roofs_at bs scale h else []))
       (slices previous_height hs))"
  by (induction hs arbitrary: previous_height) (simp_all add: Let_def)


lemma map_snd_slices: "map snd (slices previous_height hs) = hs"
  by (induction hs arbitrary: previous_height) auto








subsection \<open>Height slices of the walls\<close>

lemma example_map_fields:
  "building_mode (configuration example_map) = BuildingMode_other ''ISOMETRIC''"
  "draw_roofs (configuration example_map)"
  "get_scale (flinger example_map) = 2"
  "building_mode (configuration roofless_map) = BuildingMode_other ''ISOMETRIC''"
  "\<not> draw_roofs (configuration roofless_map)"
  "get_scale (flinger roofless_map) = 2"
  by (simp_all add: example_map_def roofless_map_def Map_init_def example_configuration_def
      example_flinger_def)

lemma shared_wall_scene_fields:
  "buildings shared_wall_scene = [tower, shed]"
  "heights shared_wall_scene = [10, 5]"
  "height tower = 10" "min_height tower = 0" "parts tower = [11, 12]"
  "height shed = 5" "min_height shed = 0" "parts shed = [12, 13]"
  by (simp_all add: shared_wall_scene_def tower_def shed_def)

lemma shared_wall_scene_walls:
  "collect_walls [tower, shed] = [(11, tower), (12, shed), (13, shed)]"
  "sorted_walls (\<lambda>s::nat. s) [(11, tower), (12, shed), (13, shed)] = [11, 12, 13]"
  by (simp_all add: collect_walls_def sorted_walls_def dict_keys_def shared_wall_scene_fields)

lemma shared_wall_scene_extruded:
  "draw_buildings (\<lambda>s::nat. s) example_map shared_wall_scene =
     [Shade_group [tower, shed],
      Draw_walls tower 11 5 (Shift 0 2) (Shift 5 2),
      Draw_walls shed 12 5 (Shift 0 2) (Shift 5 2),
      Draw_walls shed 13 5 (Shift 0 2) (Shift 5 2),
      Draw_roof shed 2,
      Draw_walls tower 11 10 (Shift 5 2) (Shift 10 2),
      Draw_roof tower 2]"
  by (simp add: draw_buildings_def Let_def example_map_fields shared_wall_scene_fields
      shared_wall_scene_walls draw_wall_def draw_roofs_at_def)




subsection \<open>Shared walls\<close>

lemma walls_of_slice_once:
  "distinct ws \<Longrightarrow>
     length (filter (is_wall_of w h) (concat (map (draw_wall walls h' s1 s2) ws)))
       \<le> (if h' = h \<and> w \<in> set ws then 1 else 0)"
  by (induction ws) (auto simp: draw_wall_def split: option.splits)

lemma no_wall_among_roofs: "filter (is_wall_of w h) (draw_roofs_at bs scale h') = []"
  by (induction bs) (auto simp: draw_roofs_at_def)

lemma walls_of_loop_once:
  "distinct ws \<Longrightarrow> distinct hs \<Longrightarrow>
     length (filter (is_wall_of w h) (height_loop cfg bs walls ws scale previous_height hs))
       \<le> (if h \<in> set hs then 1 else 0)"
proof (induction hs arbitrary: previous_height)
  case Nil
  then show ?case by simp
next
  case (Cons h' hs)
  have slice: "length (filter (is_wall_of w h)
      (concat (map (draw_wall walls h' (Shift previous_height scale) (Shift h' scale)) ws)))
        \<le> (if h' = h \<and> w \<in> set ws then 1 else 0)"
    using Cons.prems(1) by (rule walls_of_slice_once)
  have rest: "length (filter (is_wall_of w h) (height_loop cfg bs walls ws scale h' hs))
      \<le> (if h \<in> set hs then 1 else 0)"
    using Cons by simp
  show ?case
  proof (cases "h' = h")
    case True
    with Cons.prems(2) have "h \<notin> set hs" by simp
    with rest slice True show ?thesis
      by (simp add: Let_def no_wall_among_roofs split: if_splits)
  next
    case False
    with rest slice show ?thesis
      by (simp add: Let_def no_wall_among_roofs split: if_splits)
  qed
qed

text \<open>
  C4: the walls are gathered in a dictionary keyed by the segment before the slices
  are drawn, so the sorted list of walls holds every part of every building once,
  however many buildings have it; and for every segment and every height, at most
  one wall is drawn for the segment at that height. The recorded heights are a set:
  no height is listed twice.
\<close>

theorem C4_shared_walls_once:
  assumes "distinct (heights constructor)"
  shows "distinct (sorted_walls segment_key (collect_walls (buildings constructor)))
     \<and> set (sorted_walls segment_key (collect_walls (buildings constructor))) =
         (\<Union>b\<in>set (buildings constructor). set (parts b))
     \<and> length (filter (is_wall_of w h) (draw_buildings segment_key self constructor)) \<le> 1"
proof -
  let ?ws = "sorted_walls segment_key (collect_walls (buildings constructor))"
  have ws: "distinct ?ws"
    by (simp add: sorted_walls_def distinct_collect_walls)
  have hs: "distinct (sort (heights constructor))"
    using assms by simp
  have "length (filter (is_wall_of w h)
      (height_loop (configuration self) (buildings constructor)
         (collect_walls (buildings constructor)) ?ws (get_scale (flinger self)) 0
         (sort (heights constructor)))) \<le> (if h \<in> set (sort (heights constructor)) then 1 else 0)"
    using ws hs by (rule walls_of_loop_once)
  then have "length (filter (is_wall_of w h)
      (height_loop (configuration self) (buildings constructor)
         (collect_walls (buildings constructor)) ?ws (get_scale (flinger self)) 0
         (sort (heights constructor)))) \<le> 1"
    by (simp split: if_splits)
  moreover have "filter (is_wall_of w h) (map Building_draw bs) = []" for bs :: "'a building list"
    by (induction bs) simp_all
  ultimately have "length (filter (is_wall_of w h) (draw_buildings segment_key self constructor)) \<le> 1"
    by (simp add: draw_buildings_def Let_def)
  with ws show ?thesis
    by (simp add: sorted_walls_def set_collect_walls)
qed

theorem C4_shared_walls_once_witness:
  "distinct (heights shared_wall_scene)
   \<and> 12 \<in> set (parts tower) \<and> 12 \<in> set (parts shed)
   \<and> sorted_walls (\<lambda>s::nat. s) (collect_walls (buildings shared_wall_scene)) = [11, 12, 13]
   \<and> length (filter (is_wall_of 12 5)
        (draw_buildings (\<lambda>s::nat. s) example_map shared_wall_scene)) \<le> 1
   \<and> filter (is_wall_of 12 5) (draw_buildings (\<lambda>s::nat. s) example_map shared_wall_scene) =
        [Draw_walls shed 12 5 (Shift 0 2) (Shift 5 2)]"
proof -
  have heights: "distinct (heights shared_wall_scene)"
    by (simp add: shared_wall_scene_fields)
  from C4_shared_walls_once[OF heights, of "\<lambda>s. s" 12 5 example_map] heights
  show ?thesis
    by (simp add: shared_wall_scene_fields shared_wall_scene_walls shared_wall_scene_extruded)
qed

subsection \<open>Roofs\<close>

lemma draw_roofs_at_filter:
  "draw_roofs_at bs scale h = map (\<lambda>b. Draw_roof b scale) (filter (\<lambda>b. height b = h) bs)"
  by (induction bs) (simp_all add: draw_roofs_at_def)

lemma no_roof_among_walls: "filter is_roof (concat (map (draw_wall walls h s1 s2) ws)) = []"
  by (induction ws) (auto simp: draw_wall_def split: option.splits)

lemma no_roof_without_flag:
  "\<not> draw_roofs cfg \<Longrightarrow>
     filter is_roof (height_loop cfg bs walls ws scale previous_height hs) = []"
  by (induction hs arbitrary: previous_height) (simp_all add: Let_def no_roof_among_walls)

lemma no_roof_in_flat: "filter is_roof (map Building_draw bs) = []"
  by (induction bs) simp_all

text \<open>
  C10: when \<open>draw_roofs\<close> is off, \<open>draw_buildings\<close> draws no roof at all. In the
  extruded modes it adds the shade group and then, slice by slice in ascending
  height, the walls of the slice followed, when \<open>draw_roofs\<close> is on, by the roof of
  every building whose height equals the slice height, and by nothing when it is
  off.
\<close>

theorem C10_roofs_gate:
  "(\<not> draw_roofs (configuration self) \<longrightarrow>
      filter is_roof (draw_buildings segment_key self constructor) = [])
   \<and> (extruded self \<longrightarrow>
        draw_buildings segment_key self constructor =
          Shade_group (buildings constructor)
          # concat (map (\<lambda>(previous_height, h).
              concat (map (draw_wall (collect_walls (buildings constructor)) h
                             (Shift previous_height (get_scale (flinger self)))
                             (Shift h (get_scale (flinger self))))
                        (sorted_walls segment_key (collect_walls (buildings constructor))))
              @ (if draw_roofs (configuration self)
                 then map (\<lambda>b. Draw_roof b (get_scale (flinger self)))
                        (filter (\<lambda>b. height b = h) (buildings constructor))
                 else []))
            (slices 0 (sort (heights constructor)))))"
proof (intro conjI impI)
  assume "\<not> draw_roofs (configuration self)"
  then show "filter is_roof (draw_buildings segment_key self constructor) = []"
    by (simp add: draw_buildings_def Let_def no_roof_without_flag no_roof_in_flat)
next
  assume "extruded self"
  then show "draw_buildings segment_key self constructor =
      Shade_group (buildings constructor)
      # concat (map (\<lambda>(previous_height, h).
          concat (map (draw_wall (collect_walls (buildings constructor)) h
                         (Shift previous_height (get_scale (flinger self)))
                         (Shift h (get_scale (flinger self))))
                    (sorted_walls segment_key (collect_walls (buildings constructor))))
          @ (if draw_roofs (configuration self)
             then map (\<lambda>b. Draw_roof b (get_scale (flinger self)))
                    (filter (\<lambda>b. height b = h) (buildings constructor))
             else []))
        (slices 0 (sort (heights constructor))))"
    by (simp add: draw_buildings_def extruded_def Let_def height_loop_slices draw_roofs_at_filter
        cong: if_cong)
qed

lemma shared_wall_scene_slices: "slices 0 (sort [10, 5 :: rat]) = [(0, 5), (5, 10)]"
  by simp

theorem C10_roofs_gate_witness:
  "\<not> draw_roofs (configuration roofless_map) \<and> extruded roofless_map
   \<and> filter is_roof (draw_buildings (\<lambda>s::nat. s) roofless_map shared_wall_scene) = []
   \<and> draw_buildings (\<lambda>s::nat. s) roofless_map shared_wall_scene =
       [Shade_group [tower, shed],
        Draw_walls tower 11 5 (Shift 0 2) (Shift 5 2),
        Draw_walls shed 12 5 (Shift 0 2) (Shift 5 2),
        Draw_walls shed 13 5 (Shift 0 2) (Shift 5 2),
        Draw_walls tower 11 10 (Shift 5 2) (Shift 10 2)]
   \<and> draw_roofs (configuration example_map) \<and> extruded example_map
   \<and> draw_buildings (\<lambda>s::nat. s) example_map shared_wall_scene =
       [Shade_group [tower, shed],
        Draw_walls tower 11 5 (Shift 0 2) (Shift 5 2),
        Draw_walls shed 12 5 (Shift 0 2) (Shift 5 2),
        Draw_walls shed 13 5 (Shift 0 2) (Shift 5 2),
        Draw_roof shed 2,
        Draw_walls tower 11 10 (Shift 5 2) (Shift 10 2),
        Draw_roof tower 2]"
proof -
  have off: "\<not> draw_roofs (configuration roofless_map)" and mode_off: "extruded roofless_map"
    and on: "draw_roofs (configuration example_map)" and mode_on: "extruded example_map"
    by (simp_all add: extruded_def example_map_fields)
  from C10_roofs_gate[of roofless_map "\<lambda>s. s" shared_wall_scene] off mode_off
  have roofless: "filter is_roof (draw_buildings (\<lambda>s::nat. s) roofless_map shared_wall_scene) = []"
    "draw_buildings (\<lambda>s::nat. s) roofless_map shared_wall_scene =
       [Shade_group [tower, shed],
        Draw_walls tower 11 5 (Shift 0 2) (Shift 5 2),
        Draw_walls shed 12 5 (Shift 0 2) (Shift 5 2),
        Draw_walls shed 13 5 (Shift 0 2) (Shift 5 2),
        Draw_walls tower 11 10 (Shift 5 2) (Shift 10 2)]"
    by (simp_all add: example_map_fields shared_wall_scene_fields shared_wall_scene_walls
        draw_wall_def)
  from C10_roofs_gate[of example_map "\<lambda>s. s" shared_wall_scene] on mode_on
  have "draw_buildings (\<lambda>s::nat. s) example_map shared_wall_scene =
       [Shade_group [tower, shed],
        Draw_walls tower 11 5 (Shift 0 2) (Shift 5 2),
        Draw_walls shed 12 5 (Shift 0 2) (Shift 5 2),
        Draw_walls shed 13 5 (Shift 0 2) (Shift 5 2),
        Draw_roof shed 2,
        Draw_walls tower 11 10 (Shift 5 2) (Shift 10 2),
        Draw_roof tower 2]"
    by (simp add: example_map_fields shared_wall_scene_fields shared_wall_scene_walls
        draw_wall_def)
  with roofless off mode_off on mode_on show ?thesis
    by simp
qed

subsection \<open>The dictionary of nodes\<close>

lemma dict_keys_dict_add: "dict_keys (dict_add d k x) = dict_keys d"
  by (induction d) (auto simp: dict_keys_def)

lemma map_of_dict_add:
  "map_of (dict_add d k x) n =
     (if n = k then map_option (\<lambda>s. set_add s x) (map_of d k) else map_of d n)"
  by (induction d) auto

lemma parts_at_dict_add:
  "k \<in> set (dict_keys d) \<Longrightarrow>
     parts_at (dict_add d k x) n = (if n = k then set_add (parts_at d k) x else parts_at d n)"
  by (cases "map_of d k")
     (auto simp: parts_at_def map_of_dict_add dict_keys_def map_of_eq_None_iff)

lemma parts_at_missing: "k \<notin> set (dict_keys d) \<Longrightarrow> parts_at d k = []"
  by (simp add: parts_at_def dict_keys_def map_of_eq_None_iff[THEN iffD2])

lemma parts_at_dict_set_new:
  "k \<notin> set (dict_keys d) \<Longrightarrow> parts_at (dict_set d k []) n = parts_at d n"
  using parts_at_missing[of k d] by (simp add: parts_at_def map_of_dict_set)

lemma add_node_keys: "set (dict_keys (add_node d k)) = insert k (set (dict_keys d))"
  by (auto simp: add_node_def dict_keys_dict_set)

lemma add_node_distinct: "distinct (dict_keys d) \<Longrightarrow> distinct (dict_keys (add_node d k))"
  by (simp add: add_node_def dict_keys_dict_set)

lemma add_node_parts: "parts_at (add_node d k) n = parts_at d n"
  by (simp add: add_node_def parts_at_dict_set_new)

lemma add_segment_keys:
  "set (dict_keys (add_segment f road' r d index)) =
     insert (nodes road' ! index) (insert (nodes road' ! (index + 1)) (set (dict_keys d)))"
  by (auto simp: add_segment_def Let_def dict_keys_dict_add add_node_keys)

lemma add_segment_distinct:
  "distinct (dict_keys d) \<Longrightarrow> distinct (dict_keys (add_segment f road' r d index))"
  by (simp add: add_segment_def Let_def dict_keys_dict_add add_node_distinct)

lemma set_add_fresh: "made_at x \<notin> made_at ` set s \<Longrightarrow> set_add s x = s @ [x]"
  by (auto simp: set_add_def)

lemma add_segment_parts:
  assumes "(r, index, False) \<notin> made_at ` set (parts_at d n)"
    and "(r, index, True) \<notin> made_at ` set (parts_at d n)"
  shows "map made_at (parts_at (add_segment f road' r d index) n) =
     map made_at (parts_at d n) @ half_edges n (r, road', index)"
  using assms
  by (auto simp: add_segment_def Let_def parts_at_dict_add dict_keys_dict_add add_node_keys
      add_node_parts half_edges_def set_add_fresh)

subsection \<open>The two loops as one loop over the segments\<close>

lemma add_road_segments:
  "foldl (\<lambda>d (r, road', index). add_segment f road' r d index) d
     (map (\<lambda>index. (r, road', index)) indices) = foldl (add_segment f road' r) d indices"
  by (induction indices arbitrary: d) simp_all

lemma add_roads_segments:
  "foldl (add_road f) d numbered =
     foldl (\<lambda>d (r, road', index). add_segment f road' r d index) d
       (concat (map (\<lambda>(r, road'). map (\<lambda>index. (r, road', index)) [0..<length (nodes road') - 1])
          numbered))"
proof (induction numbered arbitrary: d)
  case Nil
  then show ?case by simp
next
  case (Cons numbered_road numbered)
  obtain r road' where "numbered_road = (r, road')"
    by (cases numbered_road) auto
  with Cons show ?case
    by (simp add: add_road_def add_road_segments)
qed

lemma collect_nodes_segments:
  "collect_nodes f roads' =
     foldl (\<lambda>d (r, road', index). add_segment f road' r d index) [] (segments roads')"
  by (simp add: collect_nodes_def segments_def add_roads_segments)

lemma half_edges_made_at:
  "x \<in> set (half_edges n (r, road', index)) \<Longrightarrow> fst x = r \<and> fst (snd x) = index"
  by (auto simp: half_edges_def split: if_splits)

lemma half_edges_of_segments:
  assumes "x \<in> set (concat (map (half_edges n) segs))"
  shows "(fst x, fst (snd x)) \<in> (\<lambda>(r, road', index). (r, index)) ` set segs"
proof -
  from assms obtain seg where seg: "seg \<in> set segs" and x: "x \<in> set (half_edges n seg)"
    by auto
  obtain r road' index where "seg = (r, road', index)"
    by (cases seg) auto
  with seg x half_edges_made_at[of x n r road' index] show ?thesis
    by force
qed

lemma half_edges_nonempty:
  "half_edges n (r, road', index) \<noteq> [] \<longleftrightarrow>
     n = nodes road' ! index \<or> n = nodes road' ! (index + 1)"
  by (auto simp: half_edges_def)

lemma nodes_after_segments:
  assumes "distinct (map (\<lambda>(r, road', index). (r, index)) segs)"
  shows "distinct (dict_keys (foldl (\<lambda>d (r, road', index). add_segment f road' r d index) [] segs))
    \<and> (\<forall>n. map made_at (parts_at (foldl (\<lambda>d (r, road', index). add_segment f road' r d index) [] segs) n)
            = concat (map (half_edges n) segs))
    \<and> set (dict_keys (foldl (\<lambda>d (r, road', index). add_segment f road' r d index) [] segs))
        = {n. concat (map (half_edges n) segs) \<noteq> []}"
  using assms
proof (induction segs rule: rev_induct)
  case Nil
  then show ?case by (simp add: dict_keys_def parts_at_def)
next
  case (snoc seg segs)
  obtain r road' index where seg: "seg = (r, road', index)"
    by (cases seg) auto
  let ?d = "foldl (\<lambda>d (r, road', index). add_segment f road' r d index) [] segs"
  from snoc.prems have earlier: "distinct (map (\<lambda>(r, road', index). (r, index)) segs)"
    and new: "(r, index) \<notin> (\<lambda>(r, road', index). (r, index)) ` set segs"
    by (simp_all add: seg)
  from snoc.IH[OF earlier] have keys: "distinct (dict_keys ?d)"
    and parts': "\<And>n. map made_at (parts_at ?d n) = concat (map (half_edges n) segs)"
    and known: "set (dict_keys ?d) = {n. concat (map (half_edges n) segs) \<noteq> []}"
    by blast+
  have fresh: "(r, index, side) \<notin> made_at ` set (parts_at ?d n)" for side n
  proof
    assume "(r, index, side) \<in> made_at ` set (parts_at ?d n)"
    then have "(r, index, side) \<in> set (map made_at (parts_at ?d n))"
      by simp
    then have "(r, index, side) \<in> set (concat (map (half_edges n) segs))"
      by (simp only: parts')
    from half_edges_of_segments[OF this] new show False by simp
  qed
  have unroll: "foldl (\<lambda>d (r, road', index). add_segment f road' r d index) [] (segs @ [seg]) =
      add_segment f road' r ?d index"
    by (simp add: seg)
  have step: "map made_at (parts_at (add_segment f road' r ?d index) n) =
      concat (map (half_edges n) (segs @ [seg]))" for n
    using add_segment_parts[OF fresh fresh, where n = n and f = f and road' = road'] parts'[of n]
    by (simp add: seg)
  have "{n. concat (map (half_edges n) (segs @ [seg])) \<noteq> []} =
      insert (nodes road' ! index) (insert (nodes road' ! (index + 1))
        {n. concat (map (half_edges n) segs) \<noteq> []})"
    using half_edges_nonempty[of _ r road' index] by (auto simp: seg)
  then have "set (dict_keys (add_segment f road' r ?d index)) =
      {n. concat (map (half_edges n) (segs @ [seg])) \<noteq> []}"
    by (simp only: add_segment_keys known)
  with keys step show ?case
    unfolding unroll by (simp add: add_segment_distinct)
qed

lemma numbered_segments_Cons:
  "concat (map (\<lambda>(r, road'). map (Pair r) [0..<length (nodes road') - 1])
      (enumerate k (road' # roads'))) =
   map (Pair k) [0..<length (nodes road') - 1]
   @ concat (map (\<lambda>(r, road'). map (Pair r) [0..<length (nodes road') - 1])
       (enumerate (Suc k) roads'))"
  by simp

lemma distinct_numbered_segments:
  "distinct (concat (map (\<lambda>(r, road'). map (Pair r) [0..<length (nodes road') - 1])
      (enumerate k roads')))
   \<and> (\<forall>x\<in>set (concat (map (\<lambda>(r, road'). map (Pair r) [0..<length (nodes road') - 1])
      (enumerate k roads'))). k \<le> fst x)"
proof (induction roads' arbitrary: k)
  case Nil
  then show ?case by simp
next
  case (Cons road' roads')
  let ?rest = "concat (map (\<lambda>(r, road'). map (Pair r) [0..<length (nodes road') - 1])
      (enumerate (Suc k) roads'))"
  let ?first = "map (Pair k) [0..<length (nodes road') - 1]"
  from Cons[of "Suc k"] have rest: "distinct ?rest" and later: "\<forall>x\<in>set ?rest. Suc k \<le> fst x"
    by blast+
  have first: "distinct ?first" and here: "\<forall>x\<in>set ?first. fst x = k"
    by (auto simp: distinct_map inj_on_def)
  from here later have "set ?first \<inter> set ?rest = {}"
    by fastforce
  with first rest have "distinct (?first @ ?rest)"
    by simp
  moreover from here later have "\<forall>x\<in>set (?first @ ?rest). k \<le> fst x"
    by fastforce
  ultimately show ?case
    unfolding numbered_segments_Cons by blast
qed

lemma distinct_segments: "distinct (map (\<lambda>(r, road', index). (r, index)) (segments roads'))"
proof -
  have "map (\<lambda>(r, road', index). (r, index)) (segments roads') =
      concat (map (\<lambda>(r, road'). map (Pair r) [0..<length (nodes road') - 1]) (enumerate 0 roads'))"
    by (simp add: segments_def map_concat comp_def case_prod_unfold)
  with distinct_numbered_segments[of 0 roads'] show ?thesis
    by simp
qed

lemma count_two_tests:
  "length (concat (map (\<lambda>i. (if P i then [f i] else []) @ (if Q i then [g i] else [])) xs)) =
     length (filter P xs) + length (filter Q xs)"
  by (induction xs) simp_all

lemma count_half_edges_of_road:
  "length (concat (map (half_edges n)
      (map (\<lambda>index. (r, road', index)) [0..<length (nodes road') - 1]))) =
   half_edges_of_road n road'"
  by (simp add: half_edges_def half_edges_of_road_def comp_def count_two_tests)

lemma count_half_edges_numbered:
  "length (concat (map (half_edges n)
      (concat (map (\<lambda>(r, road'). map (\<lambda>index. (r, road', index)) [0..<length (nodes road') - 1])
        numbered)))) = sum_list (map (\<lambda>numbered_road. half_edges_of_road n (snd numbered_road)) numbered)"
proof (induction numbered)
  case Nil
  then show ?case by simp
next
  case (Cons numbered_road numbered)
  obtain r road' where "numbered_road = (r, road')"
    by (cases numbered_road) auto
  with Cons count_half_edges_of_road[of n r road'] show ?case
    by simp
qed

lemma map_snd_of_enumerate: "map (\<lambda>x. f (snd x)) (enumerate k xs) = map f xs"
  by (induction xs arbitrary: k) simp_all

lemma count_half_edges:
  "length (concat (map (half_edges n) (segments roads'))) = half_edges_at n roads'"
  unfolding segments_def half_edges_at_def count_half_edges_numbered
  by (simp only: map_snd_of_enumerate)

subsection \<open>Junctions\<close>

lemma map_items_by_key:
  assumes "distinct (dict_keys d)"
  shows "map (\<lambda>(node, parts'). g node parts') d = map (\<lambda>n. g n (parts_at d n)) (dict_keys d)"
proof -
  have "parts_at d node = parts'" if "(node, parts') \<in> set d" for node parts'
    using assms that by (simp add: parts_at_def dict_keys_def)
  then show ?thesis
    by (auto simp: dict_keys_def)
qed

text \<open>
  C5: \<open>draw_simple_roads\<close> goes once through the nodes that are an end of some road
  segment, in the order they were first met, and draws a junction at a node if and
  only if four or more half-edges meet there: at such a node one
  \<open>Intersection\<close> of the node's parts, at a node with three or fewer nothing. The
  set of parts the dictionary holds for a node has as many members as half-edges
  meet at the node.
\<close>

theorem C5_junctions:
  "draw_simple_roads list_of_set self roads' =
     concat (map (\<lambda>n. if 4 \<le> half_edges_at n roads'
                      then [Intersection_draw
                              (list_of_set (parts_at (collect_nodes (flinger self) roads') n)) True]
                      else [])
        (dict_keys (collect_nodes (flinger self) roads')))
   \<and> distinct (dict_keys (collect_nodes (flinger self) roads'))
   \<and> set (dict_keys (collect_nodes (flinger self) roads')) = {n. 0 < half_edges_at n roads'}
   \<and> length (parts_at (collect_nodes (flinger self) roads') n) = half_edges_at n roads'"
proof -
  let ?d = "collect_nodes (flinger self) roads'"
  from nodes_after_segments[OF distinct_segments, where roads'1 = roads' and f = "flinger self"]
  have keys: "distinct (dict_keys ?d)"
    and made: "\<And>m. map made_at (parts_at ?d m) = concat (map (half_edges m) (segments roads'))"
    and known: "set (dict_keys ?d) = {m. concat (map (half_edges m) (segments roads')) \<noteq> []}"
    unfolding collect_nodes_segments by blast+
  have count: "length (parts_at ?d m) = half_edges_at m roads'" for m
  proof -
    have "length (parts_at ?d m) = length (map made_at (parts_at ?d m))"
      by simp
    also have "\<dots> = half_edges_at m roads'"
      by (simp only: made count_half_edges)
    finally show ?thesis .
  qed
  have "concat (map (half_edges m) (segments roads')) \<noteq> [] \<longleftrightarrow> 0 < half_edges_at m roads'" for m
    using count_half_edges[of m roads'] by (metis length_greater_0_conv)
  with known have ends: "set (dict_keys ?d) = {m. 0 < half_edges_at m roads'}"
    by simp
  have "map (\<lambda>(node, parts'). if length parts' < 4 then []
          else [Intersection_draw (list_of_set parts') True]) ?d =
      map (\<lambda>n. if length (parts_at ?d n) < 4 then []
          else [Intersection_draw (list_of_set (parts_at ?d n)) True]) (dict_keys ?d)"
    using keys by (rule map_items_by_key)
  then have "draw_simple_roads list_of_set self roads' =
      concat (map (\<lambda>n. if length (parts_at ?d n) < 4 then []
                        else [Intersection_draw (list_of_set (parts_at ?d n)) True])
        (dict_keys ?d))"
    unfolding draw_simple_roads_def by (rule arg_cong)
  also have "\<dots> = concat (map (\<lambda>n. if 4 \<le> half_edges_at n roads'
                      then [Intersection_draw (list_of_set (parts_at ?d n)) True]
                      else [])
        (dict_keys ?d))"
    by (rule arg_cong[where f = concat]) (auto simp: count)
  finally show ?thesis
    using keys ends count by blast
qed

lemma crossing_nodes:
  "dict_keys (collect_nodes (flinger example_map) crossing) =
     [centre, outer_node 11, outer_node 12, outer_node 13, outer_node 14]"
  "dict_keys (collect_nodes (flinger example_map) fork) =
     [centre, outer_node 11, outer_node 12, outer_node 13]"
  by code_simp+

lemma crossing_half_edges:
  "half_edges_at centre crossing = 4"
  "half_edges_at (outer_node 11) crossing = 1" "half_edges_at (outer_node 12) crossing = 1"
  "half_edges_at (outer_node 13) crossing = 1" "half_edges_at (outer_node 14) crossing = 1"
  "half_edges_at centre fork = 3"
  "half_edges_at (outer_node 11) fork = 1" "half_edges_at (outer_node 12) fork = 1"
  "half_edges_at (outer_node 13) fork = 1"
  by code_simp+

theorem C5_junctions_witness:
  "half_edges_at centre crossing = 4
   \<and> draw_simple_roads (\<lambda>ps. ps) example_map crossing =
       [Intersection_draw (parts_at (collect_nodes (flinger example_map) crossing) centre) True
          :: nat element]
   \<and> length (parts_at (collect_nodes (flinger example_map) crossing) centre) = 4
   \<and> half_edges_at centre fork = 3
   \<and> draw_simple_roads (\<lambda>ps. ps) example_map fork = ([] :: nat element list)"
  using C5_junctions[of "\<lambda>ps. ps" example_map crossing centre, where ?'a = nat]
    C5_junctions[of "\<lambda>ps. ps" example_map fork centre, where ?'a = nat]
  by (simp add: crossing_nodes crossing_half_edges)

subsection \<open>The passes over the points\<close>

lemma draw_passes:
  "draw segment_key project self constructor =
     drawn_before_points segment_key self constructor
     @ map (\<lambda>node. Draw_main_shapes node (make_occupied self))
         (sort_key (\<lambda>x. - point_priority x) (points constructor))
     @ map (\<lambda>point'. Draw_extra_shapes point' (make_occupied self))
         (sort_key (\<lambda>x. - point_priority x) (points constructor))
     @ concat (map (\<lambda>point'. if labels_enabled self
                     then [Draw_texts point' (make_occupied self) (label_mode (configuration self))]
                     else [])
         (sort_key (\<lambda>x. - point_priority x) (points constructor)))
     @ draw_credits project self (flinger_size (constructor_flinger constructor))"
  unfolding draw_def Let_def drawn_before_points_def labels_enabled_def by simp

lemma building_not_point_call: "layer_of e = Building_layer \<Longrightarrow> handed_tracker e = None"
  by (cases e) simp_all

lemma credit_not_point_call: "layer_of e = Credit_layer \<Longrightarrow> handed_tracker e = None"
  by (cases e) simp_all

lemma before_points_no_point_call:
  "e \<in> set (drawn_before_points segment_key self constructor) \<Longrightarrow> handed_tracker e = None"
  by (auto simp: drawn_before_points_def draw_figures_paths
      dest: layer_of_draw_buildings building_not_point_call)

lemma credits_no_point_call:
  "e \<in> set (draw_credits project self size') \<Longrightarrow> handed_tracker e = None"
  by (auto dest: layer_of_draw_credits credit_not_point_call)

lemma not_point_call_not_icon_call: "handed_tracker e = None \<Longrightarrow> icon_call e = None"
  by (cases e) simp_all

lemma map_filter_none: "(\<And>e. e \<in> set xs \<Longrightarrow> f e = None) \<Longrightarrow> List.map_filter f xs = []"
  by (induction xs) (simp_all add: List.map_filter_simps)

lemma map_filter_all: "List.map_filter (\<lambda>x. Some (g x)) xs = map g xs"
  by (induction xs) (simp_all add: List.map_filter_simps)

lemma icon_calls_of_texts:
  "List.map_filter icon_call (concat (map (\<lambda>p. if b then [Draw_texts p tracker mode] else []) ps)) = []"
  by (rule map_filter_none) (auto split: if_splits)

lemma icon_calls_of_draw:
  "List.map_filter icon_call (draw segment_key project self constructor) =
     map (Pair Main_pass) (sort_key (\<lambda>x. - point_priority x) (points constructor))
     @ map (Pair Extra_pass) (sort_key (\<lambda>x. - point_priority x) (points constructor))"
proof -
  have before: "List.map_filter icon_call (drawn_before_points segment_key self constructor) = []"
    by (rule map_filter_none) (auto dest: before_points_no_point_call not_point_call_not_icon_call)
  have credits: "List.map_filter icon_call
      (draw_credits project self (flinger_size (constructor_flinger constructor))) = []"
    by (rule map_filter_none) (auto dest: credits_no_point_call not_point_call_not_icon_call)
  have mains: "List.map_filter icon_call (map (\<lambda>node. Draw_main_shapes node tracker) ps) =
      map (Pair Main_pass) ps" for tracker ps
    by (induction ps) (simp_all add: List.map_filter_simps)
  have extras: "List.map_filter icon_call (map (\<lambda>node. Draw_extra_shapes node tracker) ps) =
      map (Pair Extra_pass) ps" for tracker ps
    by (induction ps) (simp_all add: List.map_filter_simps)
  show ?thesis
    unfolding draw_passes map_filter_append_list before credits mains extras icon_calls_of_texts
    by simp
qed

lemma descending_sort_key:
  "descending (map point_priority (sort_key (\<lambda>x. - point_priority x) ps))"
proof -
  have "sorted (map (\<lambda>x. - point_priority x) (sort_key (\<lambda>x. - point_priority x) ps))"
    by (rule sorted_sort_key)
  then show ?thesis
    by (simp add: descending_def sorted_wrt_map)
qed

subsection \<open>Placing with and without a tracker\<close>

lemma emit_append:
  "emit st (xs @ ys) =
     (fst (emit st xs) @ fst (emit (snd (emit st xs)) ys), snd (emit (snd (emit st xs)) ys))"
  by (induction xs arbitrary: st) simp_all

lemma place_other: "handed_tracker e = None \<Longrightarrow> place st e = ([Added e], st)"
  by (cases e) simp_all

lemma emit_others:
  "(\<And>e. e \<in> set xs \<Longrightarrow> handed_tracker e = None) \<Longrightarrow> emit st xs = (map Added xs, st)"
  by (induction xs arbitrary: st) (simp_all add: place_other)

lemma failed_claim_skips:
  assumes "claim tracker (claimed (snd (emit st before))) (main_footprint p) = None"
  shows "emit st (before @ Draw_main_shapes p tracker # rest) = emit st (before @ rest)"
  using assms by (simp add: emit_append)

lemma handed_none_no_priority: "handed_tracker e = None \<Longrightarrow> main_icon_priority e = None"
  by (cases e) simp_all

lemma main_priorities_of_draw:
  "List.map_filter main_icon_priority (draw segment_key project self constructor) =
     map point_priority (sort_key (\<lambda>x. - point_priority x) (points constructor))"
proof -
  have before: "List.map_filter main_icon_priority
      (drawn_before_points segment_key self constructor) = []"
    by (rule map_filter_none) (auto dest: before_points_no_point_call handed_none_no_priority)
  have credits: "List.map_filter main_icon_priority
      (draw_credits project self (flinger_size (constructor_flinger constructor))) = []"
    by (rule map_filter_none) (auto dest: credits_no_point_call handed_none_no_priority)
  have mains: "List.map_filter main_icon_priority (map (\<lambda>node. Draw_main_shapes node tracker) ps) =
      map point_priority ps" for tracker ps
    by (induction ps) (simp_all add: List.map_filter_simps)
  have extras: "List.map_filter main_icon_priority
      (map (\<lambda>node. Draw_extra_shapes node tracker) ps) = []" for tracker ps
    by (induction ps) (simp_all add: List.map_filter_simps)
  have texts: "List.map_filter main_icon_priority
      (concat (map (\<lambda>p. if b then [Draw_texts p tracker mode] else []) ps)) = []" for b tracker mode ps
    by (rule map_filter_none) (auto split: if_splits)
  show ?thesis
    unfolding draw_passes map_filter_append_list before credits mains extras texts
    by simp
qed

lemma crowded_scene_nodes:
  "sort_key (\<lambda>x. - point_priority x) (points crowded_scene) = [first_twin, second_twin, loner]"
  by (simp add: crowded_scene_def first_twin_def second_twin_def loner_def)

text \<open>
  C6, as stated, fails in its first words: the points are sorted by
  \<open>key=lambda x: -x.priority\<close>, which leaves points of equal priority side by side, so
  the order is not strictly descending.
\<close>

theorem C6_counterexample:
  "\<not> strictly_descending (List.map_filter main_icon_priority
        (draw (\<lambda>s::nat. s) ''Map Machine'' example_map crowded_scene))"
  by (simp add: main_priorities_of_draw crowded_scene_nodes strictly_descending_def
      first_twin_def second_twin_def loner_def)

text \<open>
  C6, amended: the points are sorted by descending priority, points of equal priority
  staying in input order, and that one sequence is gone through in two complete
  passes: the main icon of every point is asked for first, and only then the extra
  icons of every point, in the same order. In the occupancy model a main icon whose
  claim fails adds nothing and leaves the tracker as it was: the rest of the render
  goes as if that icon had not been asked for.
\<close>

theorem C6_icon_passes:
  "List.map_filter icon_call (draw segment_key project self constructor) =
      map (Pair Main_pass) (sort_key (\<lambda>x. - point_priority x) (points constructor))
      @ map (Pair Extra_pass) (sort_key (\<lambda>x. - point_priority x) (points constructor))
   \<and> descending (map point_priority (sort_key (\<lambda>x. - point_priority x) (points constructor)))
   \<and> (\<forall>q. filter (\<lambda>x. point_priority x = q)
              (sort_key (\<lambda>x. - point_priority x) (points constructor)) =
            filter (\<lambda>x. point_priority x = q) (points constructor))
   \<and> (claim tracker (claimed (snd (emit st before))) (main_footprint p) = None \<longrightarrow>
        emit st (before @ Draw_main_shapes p tracker # rest) = emit st (before @ rest))"
proof -
  have "filter (\<lambda>x. point_priority x = q) (sort_key (\<lambda>x. - point_priority x) (points constructor)) =
      filter (\<lambda>x. point_priority x = q) (points constructor)" for q
    using sort_key_stable[of "\<lambda>x. - point_priority x" "- q" "points constructor"] by simp
  then show ?thesis
    using icon_calls_of_draw descending_sort_key failed_claim_skips by blast
qed

theorem C6_icon_passes_witness:
  "claim (Some example_tracker)
      (claimed (snd (emit nothing_placed
         [Draw_main_shapes first_twin (Some example_tracker) :: nat element])))
      (main_footprint second_twin) = None
   \<and> emit nothing_placed
        [Draw_main_shapes first_twin (Some example_tracker),
         Draw_main_shapes second_twin (Some example_tracker),
         Draw_main_shapes loner (Some example_tracker) :: nat element] =
      emit nothing_placed
        [Draw_main_shapes first_twin (Some example_tracker),
         Draw_main_shapes loner (Some example_tracker)]
   \<and> fst (emit nothing_placed
        [Draw_main_shapes first_twin (Some example_tracker),
         Draw_main_shapes second_twin (Some example_tracker),
         Draw_main_shapes loner (Some example_tracker) :: nat element]) =
      [Main_icon first_twin, Main_icon loner]
   \<and> List.map_filter icon_call (draw (\<lambda>s::nat. s) ''Map Machine'' example_map crowded_scene) =
      [(Main_pass, first_twin), (Main_pass, second_twin), (Main_pass, loner),
       (Extra_pass, first_twin), (Extra_pass, second_twin), (Extra_pass, loner)]"
proof -
  have fails: "claim (Some example_tracker)
      (claimed (snd (emit nothing_placed
         [Draw_main_shapes first_twin (Some example_tracker) :: nat element])))
      (main_footprint second_twin) = None"
    by (simp add: claim_def nothing_placed_def first_twin_def second_twin_def)
  note claim = C6_icon_passes[of "\<lambda>s::nat. s" "''Map Machine''" example_map crowded_scene
      "Some example_tracker" nothing_placed
      "[Draw_main_shapes first_twin (Some example_tracker)]" second_twin
      "[Draw_main_shapes loner (Some example_tracker)]"]
  from claim[THEN conjunct2, THEN conjunct2, THEN conjunct2] fails have skipped: "emit nothing_placed
        [Draw_main_shapes first_twin (Some example_tracker),
         Draw_main_shapes second_twin (Some example_tracker),
         Draw_main_shapes loner (Some example_tracker) :: nat element] =
      emit nothing_placed
        [Draw_main_shapes first_twin (Some example_tracker),
         Draw_main_shapes loner (Some example_tracker)]"
    by simp
  have two: "fst (emit nothing_placed
        [Draw_main_shapes first_twin (Some example_tracker),
         Draw_main_shapes loner (Some example_tracker) :: nat element]) =
      [Main_icon first_twin, Main_icon loner]"
    by (simp add: claim_def nothing_placed_def first_twin_def loner_def)
  have three: "fst (emit nothing_placed
        [Draw_main_shapes first_twin (Some example_tracker),
         Draw_main_shapes second_twin (Some example_tracker),
         Draw_main_shapes loner (Some example_tracker) :: nat element]) =
      [Main_icon first_twin, Main_icon loner]"
    unfolding skipped by (rule two)
  have calls: "List.map_filter icon_call
      (draw (\<lambda>s::nat. s) ''Map Machine'' example_map crowded_scene) =
      [(Main_pass, first_twin), (Main_pass, second_twin), (Main_pass, loner),
       (Extra_pass, first_twin), (Extra_pass, second_twin), (Extra_pass, loner)]"
    using claim[THEN conjunct1] unfolding crowded_scene_nodes by simp
  from fails skipped three calls show ?thesis
    by (intro conjI)
qed

lemma claim_untracked: "claim None claimed' footprint = Some claimed'"
  by (simp add: claim_def)

lemma place_extras_untracked:
  "place_extras None i footprints claimed' = ([i..<i + length footprints], claimed')"
proof (induction footprints arbitrary: i)
  case Nil
  then show ?case by simp
next
  case (Cons footprint footprints)
  have "[i..<i + length (footprint # footprints)] = i # [Suc i..<Suc i + length footprints]"
    by (subst upt_rec) simp
  then show ?case
    by (simp only: place_extras.simps claim_untracked option.case Cons[of "Suc i"] fst_conv snd_conv)
qed

lemma emit_mains_untracked:
  "emit st (map (\<lambda>p. Draw_main_shapes p None) ps) =
     (map Main_icon ps, \<lparr>claimed = claimed st, painted = rev (map point_id ps) @ painted st\<rparr>)"
  by (induction ps arbitrary: st) (simp_all add: claim_untracked)

lemma emit_extras_untracked:
  "emit st (map (\<lambda>p. Draw_extra_shapes p None) ps) =
     (concat (map (\<lambda>p. map (Extra_icon p) [0..<length (extra_footprints p)]) ps), st)"
  by (induction ps arbitrary: st) (simp_all add: place_extras_untracked)

lemma placement_same: "\<lparr>claimed = claimed st, painted = painted st\<rparr> = st"
  by (cases st) simp

lemma emit_labels_untracked:
  "set (map point_id ps) \<subseteq> set (painted st) \<Longrightarrow>
     emit st (map (\<lambda>p. Draw_texts p None mode) ps) = (map (\<lambda>p. Label p mode) ps, st)"
  by (induction ps) (simp_all add: claim_untracked placement_same)

lemma emit_texts_untracked:
  assumes "set (map point_id ps) \<subseteq> set (painted st)"
  shows "emit st (concat (map (\<lambda>p. if b then [Draw_texts p None mode] else []) ps)) =
       ((if b then map (\<lambda>p. Label p mode) ps else []), st)"
proof (cases b)
  case True
  have "concat (map (\<lambda>p. [Draw_texts p None mode]) ps) = map (\<lambda>p. Draw_texts p None mode) ps"
    by (induction ps) simp_all
  with True emit_labels_untracked[OF assms, of mode] show ?thesis
    by simp
next
  case False
  show ?thesis
    unfolding if_not_P[OF False] by (induction ps) simp_all
qed

lemma no_icons_among_added: "filter is_icon_or_label (map Added xs) = []"
  by (induction xs) simp_all

lemma all_icons_kept:
  "filter is_icon_or_label (map Main_icon ps) = map Main_icon ps"
  "filter is_icon_or_label (concat (map (\<lambda>p. map (Extra_icon p) (f p)) ps)) =
     concat (map (\<lambda>p. map (Extra_icon p) (f p)) ps)"
  "filter is_icon_or_label (map (\<lambda>p. Label p mode) ps) = map (\<lambda>p. Label p mode) ps"
  by (induction ps) (simp_all add: filter_id_conv)

lemma emit_untracked_draw:
  assumes "make_occupied self = None"
  shows "filter is_icon_or_label
      (fst (emit nothing_placed (draw segment_key project self constructor))) =
    map Main_icon (sort_key (\<lambda>x. - point_priority x) (points constructor))
    @ concat (map (\<lambda>p. map (Extra_icon p) [0..<length (extra_footprints p)])
        (sort_key (\<lambda>x. - point_priority x) (points constructor)))
    @ (if labels_enabled self
       then map (\<lambda>p. Label p (label_mode (configuration self)))
              (sort_key (\<lambda>x. - point_priority x) (points constructor))
       else [])"
proof -
  let ?ns = "sort_key (\<lambda>x. - point_priority x) (points constructor)"
  let ?before = "drawn_before_points segment_key self constructor"
  let ?credits = "draw_credits project self (flinger_size (constructor_flinger constructor))"
  let ?texts = "concat (map (\<lambda>p. if labels_enabled self
      then [Draw_texts p None (label_mode (configuration self))] else []) ?ns)"
  let ?st1 = "\<lparr>claimed = claimed nothing_placed,
      painted = rev (map point_id ?ns) @ painted nothing_placed\<rparr>"
  have before: "emit st ?before = (map Added ?before, st)" for st
    by (rule emit_others) (rule before_points_no_point_call)
  have credits: "emit st ?credits = (map Added ?credits, st)" for st
    by (rule emit_others) (rule credits_no_point_call)
  have texts: "emit ?st1 ?texts =
      ((if labels_enabled self then map (\<lambda>p. Label p (label_mode (configuration self))) ?ns
        else []), ?st1)"
    by (rule emit_texts_untracked) simp
  have "fst (emit nothing_placed (draw segment_key project self constructor)) =
      map Added ?before @ map Main_icon ?ns
      @ concat (map (\<lambda>p. map (Extra_icon p) [0..<length (extra_footprints p)]) ?ns)
      @ (if labels_enabled self then map (\<lambda>p. Label p (label_mode (configuration self))) ?ns
         else [])
      @ map Added ?credits"
    unfolding draw_passes assms emit_append before emit_mains_untracked emit_extras_untracked
      fst_conv snd_conv texts credits
    by simp
  then show ?thesis
    by (simp add: no_icons_among_added all_icons_kept)
qed

lemma handed_tracker_of_draw:
  "set (List.map_filter handed_tracker (draw segment_key project self constructor))
     \<subseteq> {make_occupied self}"
proof -
  have before: "List.map_filter handed_tracker (drawn_before_points segment_key self constructor) = []"
    by (rule map_filter_none) (rule before_points_no_point_call)
  have credits: "List.map_filter handed_tracker
      (draw_credits project self (flinger_size (constructor_flinger constructor))) = []"
    by (rule map_filter_none) (rule credits_no_point_call)
  show ?thesis
    unfolding draw_passes map_filter_append_list before credits
    by (auto simp: set_map_filter_iff split: if_splits)
qed

subsection \<open>The overlap tolerance\<close>

text \<open>
  C7: with an overlap of 0 no tracker is made, and in the occupancy model every main
  icon, every extra icon and (when labels are drawn) every label of every point is
  in the document: none is suppressed. With any other overlap the tracker is
  \<open>Occupied(size[0], size[1], overlap)\<close>, sized to the canvas. In both cases every
  call of the icon passes and of the label pass is handed that same value.
\<close>

theorem C7_tracker_by_overlap:
  "(overlap (configuration self) = 0 \<longrightarrow>
      make_occupied self = None
      \<and> filter is_icon_or_label
           (fst (emit nothing_placed (draw segment_key project self constructor))) =
         map Main_icon (sort_key (\<lambda>x. - point_priority x) (points constructor))
         @ concat (map (\<lambda>p. map (Extra_icon p) [0..<length (extra_footprints p)])
             (sort_key (\<lambda>x. - point_priority x) (points constructor)))
         @ (if labels_enabled self
            then map (\<lambda>p. Label p (label_mode (configuration self)))
                   (sort_key (\<lambda>x. - point_priority x) (points constructor))
            else []))
   \<and> (overlap (configuration self) \<noteq> 0 \<longrightarrow>
        make_occupied self =
          Some \<lparr>occupied_width = fst (flinger_size (flinger self)),
                occupied_height = snd (flinger_size (flinger self)),
                occupied_overlap = overlap (configuration self)\<rparr>)
   \<and> set (List.map_filter handed_tracker (draw segment_key project self constructor))
        \<subseteq> {make_occupied self}"
proof (intro conjI impI)
  assume zero: "overlap (configuration self) = 0"
  then show none: "make_occupied self = None"
    by (simp add: make_occupied_def)
  then show "filter is_icon_or_label
           (fst (emit nothing_placed (draw segment_key project self constructor))) =
         map Main_icon (sort_key (\<lambda>x. - point_priority x) (points constructor))
         @ concat (map (\<lambda>p. map (Extra_icon p) [0..<length (extra_footprints p)])
             (sort_key (\<lambda>x. - point_priority x) (points constructor)))
         @ (if labels_enabled self
            then map (\<lambda>p. Label p (label_mode (configuration self)))
                   (sort_key (\<lambda>x. - point_priority x) (points constructor))
            else [])"
    by (rule emit_untracked_draw)
next
  assume "overlap (configuration self) \<noteq> 0"
  then show "make_occupied self =
          Some \<lparr>occupied_width = fst (flinger_size (flinger self)),
                occupied_height = snd (flinger_size (flinger self)),
                occupied_overlap = overlap (configuration self)\<rparr>"
    by (simp add: make_occupied_def)
next
  show "set (List.map_filter handed_tracker (draw segment_key project self constructor))
        \<subseteq> {make_occupied self}"
    by (rule handed_tracker_of_draw)
qed

lemma icons_of_draw:
  "filter is_icon_or_label (fst (emit st (draw segment_key project self constructor))) =
     filter is_icon_or_label (fst (emit st
       (map (\<lambda>node. Draw_main_shapes node (make_occupied self))
          (sort_key (\<lambda>x. - point_priority x) (points constructor))
        @ map (\<lambda>point'. Draw_extra_shapes point' (make_occupied self))
            (sort_key (\<lambda>x. - point_priority x) (points constructor))
        @ concat (map (\<lambda>point'. if labels_enabled self
                        then [Draw_texts point' (make_occupied self) (label_mode (configuration self))]
                        else [])
            (sort_key (\<lambda>x. - point_priority x) (points constructor))))))"
proof -
  let ?before = "drawn_before_points segment_key self constructor"
  let ?credits = "draw_credits project self (flinger_size (constructor_flinger constructor))"
  have before: "emit st' ?before = (map Added ?before, st')" for st'
    by (rule emit_others) (rule before_points_no_point_call)
  have credits: "emit st' ?credits = (map Added ?credits, st')" for st'
    by (rule emit_others) (rule credits_no_point_call)
  show ?thesis
    unfolding draw_passes
    by (simp add: emit_append before credits no_icons_among_added)
qed

lemma tracked_map_fields:
  "make_occupied example_map = Some example_tracker"
  "labels_enabled example_map"
  "label_mode (configuration example_map) = LabelMode_other ''MAIN''"
  "overlap (configuration example_map) = 12"
  "overlap (configuration untracked_map) = 0"
  "labels_enabled untracked_map"
  "label_mode (configuration untracked_map) = LabelMode_other ''MAIN''"
  "flinger_size (flinger example_map) = (100, 80)"
  by (simp_all add: make_occupied_def labels_enabled_def example_map_def untracked_map_def
      Map_init_def example_configuration_def example_flinger_def example_tracker_def)

theorem C7_tracker_by_overlap_witness:
  "overlap (configuration untracked_map) = 0
   \<and> make_occupied untracked_map = None
   \<and> filter is_icon_or_label (fst (emit nothing_placed
        (draw (\<lambda>s::nat. s) ''Map Machine'' untracked_map crowded_scene))) =
       [Main_icon first_twin, Main_icon second_twin, Main_icon loner,
        Extra_icon first_twin 0,
        Label first_twin (LabelMode_other ''MAIN''),
        Label second_twin (LabelMode_other ''MAIN''),
        Label loner (LabelMode_other ''MAIN'')]
   \<and> overlap (configuration example_map) \<noteq> 0
   \<and> make_occupied example_map =
       Some \<lparr>occupied_width = 100, occupied_height = 80, occupied_overlap = 12\<rparr>
   \<and> filter is_icon_or_label (fst (emit nothing_placed
        (draw (\<lambda>s::nat. s) ''Map Machine'' example_map crowded_scene))) =
       [Main_icon first_twin, Main_icon loner,
        Extra_icon first_twin 0,
        Label first_twin (LabelMode_other ''MAIN''),
        Label loner (LabelMode_other ''MAIN'')]"
proof -
  have zero: "overlap (configuration untracked_map) = 0"
    and twelve: "overlap (configuration example_map) \<noteq> 0"
    by (simp_all add: tracked_map_fields)
  note untracked = C7_tracker_by_overlap[of untracked_map "\<lambda>s::nat. s" "''Map Machine''" crowded_scene]
  note tracked = C7_tracker_by_overlap[of example_map "\<lambda>s::nat. s" "''Map Machine''" crowded_scene]
  from untracked zero have none: "make_occupied untracked_map = None"
    by blast
  from untracked zero have all_drawn: "filter is_icon_or_label (fst (emit nothing_placed
        (draw (\<lambda>s::nat. s) ''Map Machine'' untracked_map crowded_scene))) =
       [Main_icon first_twin, Main_icon second_twin, Main_icon loner,
        Extra_icon first_twin 0,
        Label first_twin (LabelMode_other ''MAIN''),
        Label second_twin (LabelMode_other ''MAIN''),
        Label loner (LabelMode_other ''MAIN'')]"
    by (simp add: crowded_scene_nodes tracked_map_fields first_twin_def second_twin_def loner_def)
  from tracked twelve have made: "make_occupied example_map =
       Some \<lparr>occupied_width = 100, occupied_height = 80, occupied_overlap = 12\<rparr>"
    by (simp add: tracked_map_fields)
  have suppressed: "filter is_icon_or_label (fst (emit nothing_placed
        (draw (\<lambda>s::nat. s) ''Map Machine'' example_map crowded_scene))) =
       [Main_icon first_twin, Main_icon loner,
        Extra_icon first_twin 0,
        Label first_twin (LabelMode_other ''MAIN''),
        Label loner (LabelMode_other ''MAIN'')]"
    unfolding icons_of_draw crowded_scene_nodes
    by (simp add: tracked_map_fields claim_def nothing_placed_def first_twin_def
        second_twin_def loner_def)
  from zero none all_drawn twelve made suppressed show ?thesis
    by (intro conjI)
qed

subsection \<open>The speed limit sign\<close>

text \<open>
  C9: the tags \<open>{"traffic_sign": "maxspeed", "maxspeed": "42"}\<close> resolve to an icon
  set whose main icon is three shapes in order, the circular frame \<open>circle_11\<close>, the
  glyph \<open>digit_4\<close> and the glyph \<open>digit_2\<close>, both glyphs white, and whose list of
  extra icons is empty; it passes the check of \<open>test_icon_regex\<close>.
\<close>

theorem C9_maxspeed_icon:
  "get_icon (scenario_scheme default' extra')
      [(''traffic_sign'', ''maxspeed''), (''maxspeed'', ''42'')] =
     \<lparr>main_icon =
        \<lparr>shape_specifications =
           [\<lparr>shape_id = ''circle_11'', shape_color = default'\<rparr>,
            \<lparr>shape_id = ''digit_4'', shape_color = WHITE\<rparr>,
            \<lparr>shape_id = ''digit_2'', shape_color = WHITE\<rparr>]\<rparr>,
      extra_icons = []\<rparr>
   \<and> check_icon_set
        (get_icon (scenario_scheme default' extra')
           [(''traffic_sign'', ''maxspeed''), (''maxspeed'', ''42'')])
        [(''circle_11'', default'), (''digit_4'', WHITE), (''digit_2'', WHITE)] []"
proof -
  have resolved: "get_icon (scenario_scheme default' extra')
      [(''traffic_sign'', ''maxspeed''), (''maxspeed'', ''42'')] =
     \<lparr>main_icon =
        \<lparr>shape_specifications =
           [\<lparr>shape_id = ''circle_11'', shape_color = default'\<rparr>,
            \<lparr>shape_id = ''digit_4'', shape_color = WHITE\<rparr>,
            \<lparr>shape_id = ''digit_2'', shape_color = WHITE\<rparr>]\<rparr>,
      extra_icons = []\<rparr>"
    by (simp add: get_icon_def scenario_scheme_def rule_matches_def resolve_rule_def is_digit_def)
  have "[0..<3] = [0, 1, 2]"
    by (simp add: upt_rec)
  then have "check_icon_set
      \<lparr>main_icon =
        \<lparr>shape_specifications =
           [\<lparr>shape_id = ''circle_11'', shape_color = default'\<rparr>,
            \<lparr>shape_id = ''digit_4'', shape_color = WHITE\<rparr>,
            \<lparr>shape_id = ''digit_2'', shape_color = WHITE\<rparr>]\<rparr>,
       extra_icons = []\<rparr>
      [(''circle_11'', default'), (''digit_4'', WHITE), (''digit_2'', WHITE)] []"
    by (simp add: check_icon_set_def check_shapes_def is_default_def DEFAULT_SHAPE_ID_def)
  with resolved show ?thesis
    by simp
qed

subsection \<open>Independence of the order in which sets are listed\<close>

lemma distinct_half_edges:
  "distinct (map (\<lambda>(r, road', index). (r, index)) segs) \<Longrightarrow>
     distinct (concat (map (half_edges n) segs))"
proof (induction segs)
  case Nil
  then show ?case by simp
next
  case (Cons seg segs)
  obtain r road' index where seg: "seg = (r, road', index)"
    by (cases seg) auto
  from Cons.prems have new: "(r, index) \<notin> (\<lambda>(r, road', index). (r, index)) ` set segs"
    and rest: "distinct (map (\<lambda>(r, road', index). (r, index)) segs)"
    by (simp_all add: seg)
  have here: "distinct (half_edges n seg)"
    by (simp add: seg half_edges_def)
  have "x \<notin> set (concat (map (half_edges n) segs))" if "x \<in> set (half_edges n seg)" for x
  proof
    assume "x \<in> set (concat (map (half_edges n) segs))"
    from half_edges_of_segments[OF this] half_edges_made_at[of x n r road' index] that new
    show False by (simp add: seg)
  qed
  then have "set (half_edges n seg) \<inter> set (concat (map (half_edges n) segs)) = {}"
    by blast
  with here Cons.IH[OF rest] show ?case
    by simp
qed

lemma parts_told_apart:
  assumes "(node, ps) \<in> set (collect_nodes f roads')"
  shows "inj_on made_at (set ps)"
proof -
  let ?d = "collect_nodes f roads'"
  from nodes_after_segments[OF distinct_segments, where roads'1 = roads' and f = f]
  have keys: "distinct (dict_keys ?d)"
    and made: "map made_at (parts_at ?d node) = concat (map (half_edges node) (segments roads'))"
    unfolding collect_nodes_segments by blast+
  from keys assms have "parts_at ?d node = ps"
    by (simp add: parts_at_def dict_keys_def)
  with made distinct_half_edges[OF distinct_segments, of node roads']
  have "distinct (map made_at ps)"
    by simp
  then show ?thesis
    by (simp add: distinct_map)
qed

lemma order_half_edges_listing:
  assumes "lists_sets l1" and "lists_sets l2" and "inj_on made_at (set ps)"
  shows "order_half_edges angle (l1 ps) = order_half_edges angle (l2 ps)"
proof -
  let ?key = "\<lambda>p. (angle p, made_at p)"
  from assms(1,2) have same: "mset (l1 ps) = mset ps" "mset (l2 ps) = mset ps"
    by (simp_all add: lists_sets_def)
  then have "set (l1 ps) = set ps"
    by (metis set_mset_mset)
  with assms(3) have told_apart: "inj_on ?key (set (l1 ps))"
    by (auto simp: inj_on_def)
  have members: "mset (l1 ps) = mset (sort_key ?key (l2 ps))"
    using same by simp
  have in_order: "sorted (map ?key (sort_key ?key (l2 ps)))"
    by (rule sorted_sort_key)
  from members told_apart in_order show ?thesis
    unfolding order_half_edges_def by (rule sort_key_inj_key_eq)
qed

lemma junction_geometry_listing:
  assumes "lists_sets l1" and "lists_sets l2"
  shows "map (junction_geometry angle) (draw_simple_roads l1 self roads') =
     map (junction_geometry angle) (draw_simple_roads l2 self roads')"
proof -
  have "map (junction_geometry angle)
        (if length ps < 4 then [] else [Intersection_draw (l1 ps) True]) =
      map (junction_geometry angle)
        (if length ps < 4 then [] else [Intersection_draw (l2 ps) True])"
    if "(node, ps) \<in> set (collect_nodes (flinger self) roads')" for node ps
    using order_half_edges_listing[OF assms parts_told_apart[OF that], of angle] by simp
  then show ?thesis
    unfolding draw_simple_roads_def map_concat
    by (intro arg_cong[where f = concat]) (auto simp: comp_def)
qed

lemma draw_heights_listing:
  assumes "mset hs = mset (heights constructor)"
  shows "draw segment_key project self (constructor\<lparr>heights := hs\<rparr>) =
     draw segment_key project self constructor"
proof -
  have "sort hs = sort (heights constructor)"
    using assms by (intro properties_for_sort) simp_all
  then have "draw_buildings segment_key self (constructor\<lparr>heights := hs\<rparr>) =
      draw_buildings segment_key self constructor"
    by (simp add: draw_buildings_def Let_def)
  then show ?thesis
    by (simp add: draw_def Let_def get_sorted_figures_def)
qed

text \<open>
  C8: two runs on the same input give the same document. Whatever the order in
  which a run lists the recorded heights, \<open>Map.draw\<close> builds the same sequence of
  elements; whatever the order in which a run lists the parts of a node,
  \<open>draw_simple_roads\<close> draws the junctions of the same nodes in the same order, each
  from the same half-edges in the same order around the node. The sorts of the
  figures, of the walls and of the points leave elements of equal key in the order
  of the input.
\<close>

theorem C8_same_document:
  assumes "mset hs = mset (heights constructor)" and "lists_sets l1" and "lists_sets l2"
  shows "draw segment_key project self (constructor\<lparr>heights := hs\<rparr>) =
       draw segment_key project self constructor
     \<and> map (junction_geometry angle) (draw_simple_roads l1 self roads' :: 'a element list) =
       map (junction_geometry angle) (draw_simple_roads l2 self roads')
     \<and> (\<forall>q. filter (\<lambda>f. priority (line_style f) = q) (get_sorted_figures constructor) =
             filter (\<lambda>f. priority (line_style f) = q) (figures constructor))
     \<and> (\<forall>q. filter (\<lambda>w. segment_key w = q)
               (sorted_walls segment_key (collect_walls (buildings constructor))) =
             filter (\<lambda>w. segment_key w = q) (dict_keys (collect_walls (buildings constructor))))
     \<and> (\<forall>q. filter (\<lambda>x. - point_priority x = q)
               (sort_key (\<lambda>x. - point_priority x) (points constructor)) =
             filter (\<lambda>x. - point_priority x = q) (points constructor))"
proof (intro conjI allI)
  show "draw segment_key project self (constructor\<lparr>heights := hs\<rparr>) =
      draw segment_key project self constructor"
    using assms(1) by (rule draw_heights_listing)
  show "map (junction_geometry angle) (draw_simple_roads l1 self roads' :: 'a element list) =
      map (junction_geometry angle) (draw_simple_roads l2 self roads')"
    using assms(2,3) by (rule junction_geometry_listing)
  show "filter (\<lambda>f. priority (line_style f) = q) (get_sorted_figures constructor) =
      filter (\<lambda>f. priority (line_style f) = q) (figures constructor)" for q
    unfolding get_sorted_figures_def by (rule sort_key_stable)
  show "filter (\<lambda>w. segment_key w = q)
        (sorted_walls segment_key (collect_walls (buildings constructor))) =
      filter (\<lambda>w. segment_key w = q) (dict_keys (collect_walls (buildings constructor)))" for q
    unfolding sorted_walls_def by (rule sort_key_stable)
  show "filter (\<lambda>x. - point_priority x = q)
        (sort_key (\<lambda>x. - point_priority x) (points constructor)) =
      filter (\<lambda>x. - point_priority x = q) (points constructor)" for q
    by (rule sort_key_stable)
qed

theorem C8_same_document_witness:
  "mset [5, 10] = mset (heights shared_wall_scene)
   \<and> lists_sets (\<lambda>ps. ps) \<and> lists_sets rev
   \<and> draw (\<lambda>s::nat. s) ''Map Machine'' example_map (shared_wall_scene\<lparr>heights := [5, 10]\<rparr>) =
       draw (\<lambda>s::nat. s) ''Map Machine'' example_map shared_wall_scene
   \<and> map (junction_geometry (\<lambda>p. 0 :: nat))
        (draw_simple_roads (\<lambda>ps. ps) example_map crossing :: nat element list) =
       map (junction_geometry (\<lambda>p. 0 :: nat)) (draw_simple_roads rev example_map crossing)"
proof -
  have heights: "mset [5, 10] = mset (heights shared_wall_scene)"
    by (simp add: shared_wall_scene_fields)
  have listings: "lists_sets (\<lambda>ps. ps)" "lists_sets rev"
    by (simp_all add: lists_sets_def)
  from C8_same_document[OF heights listings, of "\<lambda>s. s" "''Map Machine''" example_map
      "\<lambda>p. 0 :: nat" crossing] heights listings
  show ?thesis
    by blast
qed

end
